theory Spec2Isabelle
  imports Complex_Main
begin

section \<open>Data model of the snake game (game/game-init.js)\<close>

text \<open>
  Ethereum addresses, room ids and message texts are JavaScript strings. A grid cell is
  the object \<open>{x, y}\<close>, here the pair \<open>(x, y)\<close> of integers.
\<close>

type_synonym eoa = string
type_synonym roomId = string
type_synonym position = "int \<times> int"

datatype direction = UP | DOWN | LEFT | RIGHT

text \<open>The two keys of \<open>gameState.snakes\<close> and \<open>gameState.players\<close>.\<close>

datatype player = player1 | player2

text \<open>
  The object returned by \<open>createInitialSnake\<close> has the fields \<open>body\<close>,
  \<open>direction\<close>, \<open>alive\<close> and \<open>score\<close>. The field \<open>nextDirection\<close> is not set there
  (it is \<open>undefined\<close>, here \<open>None\<close>) until a direction is queued.
\<close>

record snake =
  body :: "position list"
  direction :: direction
  nextDirection :: "direction option"
  alive :: bool
  score :: nat

record game_state =
  snakes :: "player \<Rightarrow> snake"
  food :: "position list"
  winner :: "player option"
  isGameOver :: bool
  players :: "player \<Rightarrow> eoa"
  gameTime :: nat

text \<open>
  Modelled from the spec: game-constants.js is missing. The header of game/snake.js and
  the game README give a 20x20 grid, an initial snake length of 3 and 3 food items.
\<close>

definition GRID_WIDTH :: int where
  "GRID_WIDTH = 20"

definition GRID_HEIGHT :: int where
  "GRID_HEIGHT = 20"

definition INITIAL_SNAKE_LENGTH :: nat where
  "INITIAL_SNAKE_LENGTH = 3"

definition MIN_FOOD_COUNT :: nat where
  "MIN_FOOD_COUNT = 3"

text \<open>
  The body of the loop of \<open>createInitialSnake\<close>: the segment pushed at index \<open>i\<close>,
  by the \<open>switch\<close> on the direction.
\<close>

fun segment :: "int \<Rightarrow> int \<Rightarrow> direction \<Rightarrow> nat \<Rightarrow> position" where
  "segment startX startY RIGHT i = (startX - int i, startY)"
| "segment startX startY LEFT i = (startX + int i, startY)"
| "segment startX startY DOWN i = (startX, startY - int i)"
| "segment startX startY UP i = (startX, startY + int i)"

text \<open>
  The loop \<open>for (let i = 0; i < INITIAL_SNAKE_LENGTH; i++) body.push(...)\<close>, with the
  current index \<open>i\<close> and the number of iterations still to run.
\<close>

fun pushSegments :: "int \<Rightarrow> int \<Rightarrow> direction \<Rightarrow> nat \<Rightarrow> nat \<Rightarrow> position list" where
  "pushSegments startX startY d i 0 = []"
| "pushSegments startX startY d i (Suc k) =
     segment startX startY d i # pushSegments startX startY d (Suc i) k"

definition createInitialSnake :: "int \<Rightarrow> int \<Rightarrow> direction \<Rightarrow> snake" where
  "createInitialSnake startX startY d =
     \<lparr> body = pushSegments startX startY d 0 INITIAL_SNAKE_LENGTH,
       direction = d,
       nextDirection = None,
       alive = True,
       score = 0 \<rparr>"

text \<open>
  \<open>createGame\<close> first formats both addresses with \<open>ethers.getAddress\<close>, which throws on
  a string that is not an address: the library function is a parameter, \<open>None\<close> where it
  throws. \<open>spawnFood()\<close> (game-food.js, random) is a parameter too: \<open>spawnFood k\<close> is
  the cell returned by the \<open>k\<close>-th call.
\<close>

datatype error = InvalidAddress

definition createGame ::
  "(string \<Rightarrow> eoa option) \<Rightarrow> (nat \<Rightarrow> position) \<Rightarrow> string \<Rightarrow> string \<Rightarrow> error + game_state" where
  "createGame getAddress spawnFood hostEoa guestEoa =
     (case getAddress hostEoa of
        None \<Rightarrow> Inl InvalidAddress
      | Some formattedHostEoa \<Rightarrow>
          (case getAddress guestEoa of
             None \<Rightarrow> Inl InvalidAddress
           | Some formattedGuestEoa \<Rightarrow>
               Inr \<lparr> snakes = (\<lambda>p. case p of
                                 player1 \<Rightarrow> createInitialSnake 3 3 RIGHT
                               | player2 \<Rightarrow> createInitialSnake (GRID_WIDTH - 4) (GRID_HEIGHT - 4) LEFT),
                     food = [spawnFood 0, spawnFood 1, spawnFood 2],
                     winner = None,
                     isGameOver = False,
                     players = (\<lambda>p. case p of
                                  player1 \<Rightarrow> formattedHostEoa
                                | player2 \<Rightarrow> formattedGuestEoa),
                     gameTime = 0 \<rparr>))"

section \<open>Rooms, connections and the server state (websocket/handlers/game.js)\<close>

text \<open>
  A WebSocket object is compared by identity (\<open>connection.ws === ws\<close>): a socket is its
  number. \<open>connections\<close> is a JavaScript \<open>Map\<close> from address to connection, iterated in
  insertion order: an association list.
\<close>

type_synonym ws = nat

text \<open>
  Modelled from the spec: game/rooms.js is missing. The lifecycle states of a room are
  those of the spec's data model.
\<close>

datatype room_status = waiting | ready | playing | closing | finished

text \<open>
  The fields of a room that the handlers read and write: \<open>room.players.host\<close>,
  \<open>room.players.guest\<close> (\<open>null\<close> until a guest joins), \<open>room.betAmount\<close>,
  \<open>room.gameState\<close> and \<open>room.appId\<close>; \<open>status\<close> is the lifecycle state.
\<close>

record room =
  host :: eoa
  guest :: "eoa option"
  betAmount :: rat
  gameState :: "game_state option"
  appId :: "string option"
  status :: room_status

text \<open>
  What the server sends: \<open>sendError(ws, code, message)\<close> to one socket and
  \<open>roomManager.broadcastToRoom(roomId, type, data)\<close> to a room. The data of a broadcast
  (built by the missing game-format.js) is left out.
\<close>

datatype event = SendError ws string string | Broadcast roomId string

text \<open>The \<open>gameData\<close> object handed to \<open>closeAppSession\<close>.\<close>

record game_data =
  endCondition :: string
  finalScores :: "player \<Rightarrow> nat"
  gd_gameTime :: nat

datatype log_entry =
    NoRoomFound roomId
  | NoSessionFound roomId
  | CloseFailed roomId
  | MoveTrackingFailed roomId

text \<open>
  The mutable state the handlers work on: the rooms of the room manager, the module
  variable \<open>gameLoops\<close> (room id to interval handle), the interval handles that have not
  been cleared, the pending \<open>setTimeout\<close> cleanups, the messages sent so far, the
  in-memory session storage of nitrolite/session-storage.js, the calls made to
  \<open>closeAppSession\<close> and the warnings and errors logged. \<open>exited\<close> tells that the
  process has ended on an unhandled promise rejection, which is what Node does by
  default (server.js, which could install a handler of its own, is missing): from then
  on no timer fires.
\<close>

record server =
  rooms :: "roomId \<rightharpoonup> room"
  gameLoops :: "roomId \<rightharpoonup> nat"
  intervals :: "nat set"
  nextHandle :: nat
  cleanups :: "roomId list"
  outbox :: "event list"
  appSessions :: "roomId \<rightharpoonup> string"
  closeCalls :: "(roomId \<times> eoa option \<times> game_data) list"
  logged :: "log_entry list"
  exited :: bool

text \<open>
  A call into a missing module that may throw: it completes, or it throws (its promise
  rejects with) a value, and either way it leaves a session storage behind. JavaScript
  can throw any value: \<open>Threw\<close> is a thrown \<open>Error\<close> object or any other value whose
  properties can be read, \<open>ThrewNullish\<close> is a thrown \<open>null\<close> or \<open>undefined\<close>, on which
  reading a property is itself a \<open>TypeError\<close>.
\<close>

datatype 'a attempt = Completed 'a | Threw 'a | ThrewNullish 'a

fun after :: "'a attempt \<Rightarrow> 'a" where
  "after (Completed s) = s"
| "after (Threw s) = s"
| "after (ThrewNullish s) = s"

fun threw :: "'a attempt \<Rightarrow> bool" where
  "threw (Completed s) = False"
| "threw (Threw s) = True"
| "threw (ThrewNullish s) = True"

fun nullish :: "'a attempt \<Rightarrow> bool" where
  "nullish (Completed s) = False"
| "nullish (Threw s) = False"
| "nullish (ThrewNullish s) = True"

text \<open>An async handler returns (its promise resolves) or an exception escapes it.\<close>

datatype outcome = Returned | Rejected

text \<open>JavaScript truthiness of a value that is a string, \<open>null\<close> or \<open>undefined\<close>.\<close>

fun truthy :: "string option \<Rightarrow> bool" where
  "truthy None = False"
| "truthy (Some s) = (s \<noteq> [])"

definition sendError :: "ws \<Rightarrow> string \<Rightarrow> string \<Rightarrow> server \<Rightarrow> server" where
  "sendError w code msg st = st\<lparr>outbox := outbox st @ [SendError w code msg]\<rparr>"

definition broadcastToRoom :: "roomId \<Rightarrow> string \<Rightarrow> server \<Rightarrow> server" where
  "broadcastToRoom rid ty st = st\<lparr>outbox := outbox st @ [Broadcast rid ty]\<rparr>"

text \<open>
  The loop \<open>for (const [eoa, connection] of connections.entries())\<close> that finds the
  address of the caller: the first entry whose socket is \<open>ws\<close>, \<open>null\<close> if there is none.
\<close>

fun findPlayer :: "(eoa \<times> ws) list \<Rightarrow> ws \<Rightarrow> eoa option" where
  "findPlayer [] w = None"
| "findPlayer ((e, c) # cs) w = (if c = w then Some e else findPlayer cs w)"

text \<open>
  \<open>clearInterval(interval); gameLoops.delete(roomId)\<close>, as the interval callbacks do.
\<close>

definition stopLoop :: "roomId \<Rightarrow> nat \<Rightarrow> server \<Rightarrow> server" where
  "stopLoop rid h st =
     st\<lparr>intervals := intervals st - {h}, gameLoops := (gameLoops st)(rid := None)\<rparr>"

text \<open>
  \<open>startGameLoop\<close>: an existing loop of the room is cleared, a new interval is set and
  stored in \<open>gameLoops\<close>. The callback of the interval is \<open>gameLoopTick\<close> below.
\<close>

definition startGameLoop :: "roomId \<Rightarrow> server \<Rightarrow> server" where
  "startGameLoop rid st =
     (let st1 = (case gameLoops st rid of
                   Some old \<Rightarrow> st\<lparr>intervals := intervals st - {old}\<rparr>
                 | None \<Rightarrow> st);
          h = nextHandle st1
      in st1\<lparr>intervals := insert h (intervals st1),
             gameLoops := (gameLoops st1)(rid \<mapsto> h),
             nextHandle := Suc h\<rparr>)"

record start_payload =
  sp_roomId :: "string option"

text \<open>
  \<open>handleStartGame\<close>. The payload is \<open>None\<close> when it is not an object. When
  \<open>createGame\<close> throws, the exception escapes the handler before anything was written.
\<close>

definition handleStartGame ::
  "(string \<Rightarrow> eoa option) \<Rightarrow> (nat \<Rightarrow> position) \<Rightarrow> (eoa \<times> ws) list \<Rightarrow> ws \<Rightarrow>
   start_payload option \<Rightarrow> server \<Rightarrow> outcome \<times> server" where
  "handleStartGame getAddress spawnFood connections w payload st =
     (case payload of
        None \<Rightarrow> (Returned, sendError w ''INVALID_PAYLOAD'' ''Invalid payload format'' st)
      | Some p \<Rightarrow>
          if \<not> truthy (sp_roomId p)
          then (Returned, sendError w ''INVALID_PAYLOAD'' ''Room ID is required'' st)
          else
            (let rid = (case sp_roomId p of Some r \<Rightarrow> r | None \<Rightarrow> []);
                 playerEoa = findPlayer connections w
             in if \<not> truthy playerEoa
                then (Returned, sendError w ''NOT_AUTHENTICATED'' ''Player not authenticated'' st)
                else
                  (case rooms st rid of
                     None \<Rightarrow> (Returned, sendError w ''ROOM_NOT_FOUND'' ''Room not found'' st)
                   | Some r \<Rightarrow>
                       if Some (host r) \<noteq> playerEoa
                       then (Returned,
                             sendError w ''NOT_AUTHORIZED'' ''Only the host can start the game'' st)
                       else if host r = [] \<or> \<not> truthy (guest r)
                       then (Returned,
                             sendError w ''ROOM_NOT_FULL''
                               ''Room must have two players to start the game'' st)
                       else
                         (case (case gameState r of
                                  Some gs \<Rightarrow> Inr st
                                | None \<Rightarrow>
                                    (case createGame getAddress spawnFood (host r)
                                            (case guest r of Some g \<Rightarrow> g | None \<Rightarrow> []) of
                                       Inl e \<Rightarrow> Inl e
                                     | Inr gs \<Rightarrow>
                                         Inr (st\<lparr>rooms := (rooms st)(rid \<mapsto> r\<lparr>gameState := Some gs\<rparr>)\<rparr>))) of
                            Inl e \<Rightarrow> (Rejected, st)
                          | Inr st1 \<Rightarrow>
                              (Returned,
                               broadcastToRoom rid ''room:state''
                                 (startGameLoop rid
                                    (broadcastToRoom rid ''game:started'' st1)))))))"

text \<open>
  The winner's address, as \<open>handleGameOverAppSession\<close> determines it: the host for
  \<open>player1\<close>, the guest for \<open>player2\<close>, otherwise \<open>null\<close> (a tie).
\<close>

definition winnerEOA :: "room \<Rightarrow> game_state \<Rightarrow> eoa option" where
  "winnerEOA r gs =
     (case winner gs of
        Some player1 \<Rightarrow> Some (host r)
      | Some player2 \<Rightarrow> guest r
      | None \<Rightarrow> None)"

definition gameData :: "game_state \<Rightarrow> game_data" where
  "gameData gs =
     \<lparr> endCondition = (if winner gs \<noteq> None then ''collision'' else ''tie''),
       finalScores = (\<lambda>p. score (snakes gs p)),
       gd_gameTime = gameTime gs \<rparr>"

definition hasAppSession :: "roomId \<Rightarrow> (roomId \<rightharpoonup> string) \<Rightarrow> bool" where
  "hasAppSession rid store = (store rid \<noteq> None)"

text \<open>
  The call \<open>await closeAppSession(roomId, winnerEOA, gameData)\<close> inside the \<open>try\<close>
  block. \<open>closeAppSession\<close> (nitrolite/session-close.js) is missing: it is a parameter
  that is given the room id, the winner and the game data, works on the session storage
  and completes or throws. It has no access to the room manager, so the rooms are as
  before. The call is recorded in \<open>closeCalls\<close>. When it throws, the \<open>catch\<close> block
  first logs the failure with the thrown value and then logs \<open>error.stack\<close>: if the
  thrown value is \<open>null\<close> or \<open>undefined\<close>, reading \<open>error.stack\<close> throws inside the
  \<open>catch\<close> block and the promise of \<open>handleGameOverAppSession\<close> rejects. Both callers drop
  that promise (the call is not awaited), so the rejection is unhandled and the process
  ends. The model lets \<open>closeAppSession\<close> settle before anything else runs.
\<close>

definition callClose ::
  "(roomId \<Rightarrow> eoa option \<Rightarrow> game_data \<Rightarrow> (roomId \<rightharpoonup> string) \<Rightarrow> (roomId \<rightharpoonup> string) attempt) \<Rightarrow>
   roomId \<Rightarrow> eoa option \<Rightarrow> game_data \<Rightarrow> server \<Rightarrow> server" where
  "callClose closeAppSession rid w gd st =
     (let res = closeAppSession rid w gd (appSessions st);
          st1 = st\<lparr>closeCalls := closeCalls st @ [(rid, w, gd)], appSessions := after res\<rparr>
      in if threw res
         then (if nullish res
               then st1\<lparr>logged := logged st1 @ [CloseFailed rid], exited := True\<rparr>
               else st1\<lparr>logged := logged st1 @ [CloseFailed rid]\<rparr>)
         else st1)"

definition handleGameOverAppSession ::
  "(roomId \<Rightarrow> eoa option \<Rightarrow> game_data \<Rightarrow> (roomId \<rightharpoonup> string) \<Rightarrow> (roomId \<rightharpoonup> string) attempt) \<Rightarrow>
   roomId \<Rightarrow> game_state \<Rightarrow> server \<Rightarrow> server" where
  "handleGameOverAppSession closeAppSession rid gs st =
     (case rooms st rid of
        None \<Rightarrow> st\<lparr>logged := logged st @ [NoRoomFound rid]\<rparr>
      | Some r \<Rightarrow>
          if truthy (appId r)
          then callClose closeAppSession rid (winnerEOA r gs) (gameData gs) st
          else if hasAppSession rid (appSessions st)
          then callClose closeAppSession rid (winnerEOA r gs) (gameData gs) st
          else st\<lparr>logged := logged st @ [NoSessionFound rid]\<rparr>)"

text \<open>
  Modelled from the spec: \<open>roomManager.closeRoom\<close> (game/rooms.js) is missing. The spec's
  \<open>retire(roomId)\<close> removes the room and all owned state and is a no-op if the room is
  already absent.
\<close>

definition closeRoom :: "roomId \<Rightarrow> (roomId \<rightharpoonup> room) \<Rightarrow> (roomId \<rightharpoonup> room)" where
  "closeRoom rid rs = rs(rid := None)"

text \<open>
  The end of a game, as both interval callbacks handle it: the interval is cleared and
  removed from \<open>gameLoops\<close>, \<open>game:over\<close> is broadcast, \<open>handleGameOverAppSession\<close> is
  called (not awaited) and the cleanup of the room is scheduled with \<open>setTimeout\<close>.
\<close>

definition onGameOver ::
  "(roomId \<Rightarrow> eoa option \<Rightarrow> game_data \<Rightarrow> (roomId \<rightharpoonup> string) \<Rightarrow> (roomId \<rightharpoonup> string) attempt) \<Rightarrow>
   roomId \<Rightarrow> nat \<Rightarrow> game_state \<Rightarrow> server \<Rightarrow> server" where
  "onGameOver closeAppSession rid h gs st =
     (let st1 = handleGameOverAppSession closeAppSession rid gs
                  (broadcastToRoom rid ''game:over'' (stopLoop rid h st))
      in st1\<lparr>cleanups := cleanups st1 @ [rid]\<rparr>)"

text \<open>
  The result of \<open>roomManager.updateGameState(roomId)\<close> (game/rooms.js, missing):
  \<open>{success: false, error}\<close> or \<open>{success: true, gameState, isGameOver}\<close>. The method is a
  parameter that also returns the rooms as it leaves them.
\<close>

datatype update_result = UpdateFailed string | Updated game_state bool

text \<open>
  The callback that \<open>startGameLoop\<close> registers with \<open>setInterval\<close>, for the interval with
  handle \<open>h\<close>. A cleared interval does not fire, and nothing fires once the process has
  ended.
\<close>

definition gameLoopTick ::
  "(roomId \<Rightarrow> (roomId \<rightharpoonup> room) \<Rightarrow> update_result \<times> (roomId \<rightharpoonup> room)) \<Rightarrow>
   (roomId \<Rightarrow> eoa option \<Rightarrow> game_data \<Rightarrow> (roomId \<rightharpoonup> string) \<Rightarrow> (roomId \<rightharpoonup> string) attempt) \<Rightarrow>
   roomId \<Rightarrow> nat \<Rightarrow> server \<Rightarrow> server" where
  "gameLoopTick updateGameState closeAppSession rid h st =
     (if exited st then st
      else if h \<notin> intervals st then st
      else
        (let st0 = st\<lparr>rooms := snd (updateGameState rid (rooms st))\<rparr>
         in case fst (updateGameState rid (rooms st)) of
              UpdateFailed e \<Rightarrow> stopLoop rid h st0
            | Updated gs over \<Rightarrow>
                (let st1 = broadcastToRoom rid ''game:update'' st0
                 in if over then onGameOver closeAppSession rid h gs st1 else st1)))"

text \<open>The callback registered by \<open>startGameOverDetectionLoop\<close>.\<close>

definition detectionTick ::
  "(roomId \<Rightarrow> eoa option \<Rightarrow> game_data \<Rightarrow> (roomId \<rightharpoonup> string) \<Rightarrow> (roomId \<rightharpoonup> string) attempt) \<Rightarrow>
   roomId \<Rightarrow> nat \<Rightarrow> server \<Rightarrow> server" where
  "detectionTick closeAppSession rid h st =
     (if exited st then st
      else if h \<notin> intervals st then st
      else
        (case rooms st rid of
           None \<Rightarrow> stopLoop rid h st
         | Some r \<Rightarrow>
             (case gameState r of
                None \<Rightarrow> stopLoop rid h st
              | Some gs \<Rightarrow>
                  if isGameOver gs then onGameOver closeAppSession rid h gs st else st)))"

text \<open>
  The callback of \<open>setTimeout(() => roomManager.closeRoom(roomId), 5000)\<close>: it runs
  once, when the timeout of the room is due and the process is still running.
\<close>

definition fireCleanup :: "roomId \<Rightarrow> server \<Rightarrow> server" where
  "fireCleanup rid st =
     (if exited st then st
      else if rid \<in> set (cleanups st)
      then st\<lparr>cleanups := remove1 rid (cleanups st), rooms := closeRoom rid (rooms st)\<rparr>
      else st)"

text \<open>
  \<open>handleDirectionChange\<close>. The missing \<open>validateDirectionPayload\<close>,
  \<open>roomManager.processDirectionChange\<close> and \<open>addMoveToSession\<close> are parameters; the payload
  is \<open>None\<close> when it is not an object, and destructuring it then throws.
\<close>

datatype validation = ValidationOk | ValidationFailed string

datatype change_result = ChangeOk | ChangeFailed string

record direction_payload =
  dp_roomId :: string
  dp_direction :: string

definition handleDirectionChange ::
  "(direction_payload option \<Rightarrow> validation) \<Rightarrow>
   (roomId \<Rightarrow> string \<Rightarrow> eoa \<Rightarrow> (roomId \<rightharpoonup> room) \<Rightarrow> change_result \<times> (roomId \<rightharpoonup> room)) \<Rightarrow>
   (roomId \<Rightarrow> eoa \<Rightarrow> string \<Rightarrow> (roomId \<rightharpoonup> string) \<Rightarrow> (roomId \<rightharpoonup> string) attempt) \<Rightarrow>
   (eoa \<times> ws) list \<Rightarrow> ws \<Rightarrow> direction_payload option \<Rightarrow> server \<Rightarrow> outcome \<times> server" where
  "handleDirectionChange validateDirectionPayload processDirectionChange addMoveToSession
       connections w payload st =
     (case validateDirectionPayload payload of
        ValidationFailed e \<Rightarrow> (Returned, sendError w ''INVALID_PAYLOAD'' e st)
      | ValidationOk \<Rightarrow>
          (case payload of
             None \<Rightarrow> (Rejected, st)
           | Some p \<Rightarrow>
               (case findPlayer connections w of
                  None \<Rightarrow>
                    (Returned, sendError w ''NOT_AUTHENTICATED'' ''Player not authenticated'' st)
                | Some playerEoa \<Rightarrow>
                    if playerEoa = []
                    then (Returned,
                          sendError w ''NOT_AUTHENTICATED'' ''Player not authenticated'' st)
                    else
                      (let result = processDirectionChange (dp_roomId p) (dp_direction p)
                                      playerEoa (rooms st);
                           st1 = st\<lparr>rooms := snd result\<rparr>
                       in case fst result of
                            ChangeFailed e \<Rightarrow>
                              (Returned, sendError w ''DIRECTION_CHANGE_FAILED'' e st1)
                          | ChangeOk \<Rightarrow>
                              (let tracked = addMoveToSession (dp_roomId p) playerEoa
                                               (dp_direction p) (appSessions st1);
                                   st2 = st1\<lparr>appSessions := after tracked\<rparr>
                               in (Returned,
                                   if threw tracked
                                   then st2\<lparr>logged := logged st2 @ [MoveTrackingFailed (dp_roomId p)]\<rparr>
                                   else st2))))))"

section \<open>The room registry (game/rooms.js)\<close>

text \<open>
  Modelled from the spec: utils/validators.js is missing. The valid bet amounts are the
  \<open>VALID_BET_AMOUNTS\<close> that the utilities README quotes from it: 0, 0.01, 0.1, 1 and 2.
\<close>

definition VALID_BET_AMOUNTS :: "rat list" where
  "VALID_BET_AMOUNTS = [0, 1 / 100, 1 / 10, 1, 2]"

text \<open>
  Modelled from the spec: \<open>isValidBetAmount\<close> of the missing utils/validators.js, as the
  utilities README quotes it; the argument is a number.
\<close>

definition isValidBetAmount :: "rat \<Rightarrow> bool" where
  "isValidBetAmount amount = (amount \<in> set VALID_BET_AMOUNTS)"

datatype room_error = InvalidStake | RoomNotFound | RoomFull | StakeMismatch

text \<open>
  Modelled from the spec: \<open>createRoom\<close> of game/rooms.js is missing.
  \<open>createRoom(hostId, stake)\<close> fails with \<open>InvalidStake\<close> if the stake is not in the
  allowed set, and the new room starts in \<open>waiting\<close>; the fresh room id is a parameter.
\<close>

definition createRoom ::
  "roomId \<Rightarrow> eoa \<Rightarrow> rat \<Rightarrow> (roomId \<rightharpoonup> room) \<Rightarrow> room_error + (roomId \<times> (roomId \<rightharpoonup> room))" where
  "createRoom newId hostId stake rs =
     (if isValidBetAmount stake
      then Inr (newId,
                rs(newId \<mapsto> \<lparr> host = hostId, guest = None, betAmount = stake,
                               gameState = None, appId = None, status = waiting \<rparr>))
      else Inl InvalidStake)"

text \<open>
  Modelled from the spec: \<open>joinRoom\<close> of game/rooms.js is missing.
  \<open>joinRoom(roomId, guestId, stake)\<close> fails with \<open>RoomNotFound\<close>, \<open>RoomFull\<close> (the room
  already has a guest) or \<open>StakeMismatch\<close> (the stake differs from the host's), checked in
  the order of the handlers README; on success the guest is set, the room becomes
  \<open>ready\<close> and the new snapshot of the room is returned for the caller to broadcast.
\<close>

definition joinRoom ::
  "roomId \<Rightarrow> eoa \<Rightarrow> rat \<Rightarrow> (roomId \<rightharpoonup> room) \<Rightarrow> room_error + (room \<times> (roomId \<rightharpoonup> room))" where
  "joinRoom rid guestId stake rs =
     (case rs rid of
        None \<Rightarrow> Inl RoomNotFound
      | Some r \<Rightarrow>
          if guest r \<noteq> None then Inl RoomFull
          else if betAmount r \<noteq> stake then Inl StakeMismatch
          else Inr (r\<lparr>guest := Some guestId, status := ready\<rparr>,
                    rs(rid \<mapsto> r\<lparr>guest := Some guestId, status := ready\<rparr>)))"

text \<open>
  Modelled from the spec: every successful state-changing operation is made observable
  to both participants, so the snapshot of a room goes to its host and its guest.
\<close>

definition notified :: "room \<Rightarrow> eoa list" where
  "notified r = host r # (case guest r of None \<Rightarrow> [] | Some g \<Rightarrow> [g])"

section \<open>The final allocation (nitrolite/session-close.js)\<close>

text \<open>
  Modelled from the spec: \<open>closeAppSession\<close> of nitrolite/session-close.js is missing. The
  final allocation gives the full stake pot (both participants' stakes combined) to the
  sole survivor and nothing to the other; on a tie (no winner) each participant gets the
  stake back. It is listed host first, as the participants of the session are.
\<close>

definition finalAllocation :: "eoa \<Rightarrow> eoa \<Rightarrow> rat \<Rightarrow> eoa option \<Rightarrow> (eoa \<times> rat) list" where
  "finalAllocation hostEOA guestEOA stake w =
     (case w of
        None \<Rightarrow> [(hostEOA, stake), (guestEOA, stake)]
      | Some a \<Rightarrow> [(hostEOA, if a = hostEOA then stake + stake else 0),
                   (guestEOA, if a = guestEOA then stake + stake else 0)])"

text \<open>
  Modelled from the spec: the allocation that the close at game over settles for a room
  with both players, \<open>closeAppSession\<close> being missing. \<open>handleGameOverAppSession\<close> passes
  the address it determined as the winner.
\<close>

definition closeAllocation :: "room \<Rightarrow> game_state \<Rightarrow> (eoa \<times> rat) list" where
  "closeAllocation r gs =
     finalAllocation (host r) (case guest r of Some g \<Rightarrow> g | None \<Rightarrow> [])
       (betAmount r) (winnerEOA r gs)"

section \<open>The simulation engine (game/game-movement.js)\<close>

text \<open>
  Modelled from the spec: game-movement.js (\<open>changeDirection\<close>, \<open>calculateNewHead\<close>,
  \<open>updateGame\<close>), game-food.js and the \<open>DIRECTIONS\<close> of game-constants.js are missing.
  The unit vector of a heading is the one \<open>createInitialSnake\<close> lays the body out
  against: \<open>RIGHT\<close> and \<open>DOWN\<close> increase \<open>x\<close> and \<open>y\<close>, \<open>LEFT\<close> and \<open>UP\<close> decrease them.
\<close>

fun unitVector :: "direction \<Rightarrow> int \<times> int" where
  "unitVector UP = (0, -1)"
| "unitVector DOWN = (0, 1)"
| "unitVector LEFT = (-1, 0)"
| "unitVector RIGHT = (1, 0)"

text \<open>The heading at 180 degrees to a heading.\<close>

fun opposite :: "direction \<Rightarrow> direction" where
  "opposite UP = DOWN"
| "opposite DOWN = UP"
| "opposite LEFT = RIGHT"
| "opposite RIGHT = LEFT"

text \<open>
  The remainder operator \<open>%\<close> of JavaScript on integers: the result has the sign of the
  dividend.
\<close>

definition jsRem :: "int \<Rightarrow> int \<Rightarrow> int" where
  "jsRem a b = sgn a * (\<bar>a\<bar> mod \<bar>b\<bar>)"

text \<open>
  Modelled from the spec: the new head is the current head plus the unit vector of the
  heading, each coordinate wrapped modulo the grid width and height, computed as the
  game README shows it: \<open>newX = (newX + GRID_WIDTH) % GRID_WIDTH\<close>.
\<close>

definition calculateNewHead :: "position \<Rightarrow> direction \<Rightarrow> position" where
  "calculateNewHead h d =
     (jsRem (fst h + fst (unitVector d) + GRID_WIDTH) GRID_WIDTH,
      jsRem (snd h + snd (unitVector d) + GRID_HEIGHT) GRID_HEIGHT)"

definition inBounds :: "position \<Rightarrow> bool" where
  "inBounds c = (0 \<le> fst c \<and> fst c < GRID_WIDTH \<and> 0 \<le> snd c \<and> snd c < GRID_HEIGHT)"

text \<open>
  Modelled from the spec: queueing a heading overwrites the single pending slot of the
  actor of that participant; no check against reversing is made. An address that is
  not a player of the match changes nothing.
\<close>

definition changeDirection :: "game_state \<Rightarrow> eoa \<Rightarrow> direction \<Rightarrow> game_state" where
  "changeDirection g addr d =
     (if players g player1 = addr
      then g\<lparr>snakes := (snakes g)(player1 := (snakes g player1)\<lparr>nextDirection := Some d\<rparr>)\<rparr>
      else if players g player2 = addr
      then g\<lparr>snakes := (snakes g)(player2 := (snakes g player2)\<lparr>nextDirection := Some d\<rparr>)\<rparr>
      else g)"

text \<open>
  Modelled from the spec: step 1 of a tick of the missing \<open>updateGame\<close>. The current
  heading of an alive actor is replaced with its queued next heading (when one is
  queued).
\<close>

definition applyNextDirection :: "snake \<Rightarrow> snake" where
  "applyNextDirection s =
     (if alive s
      then (case nextDirection s of Some d \<Rightarrow> s\<lparr>direction := d\<rparr> | None \<Rightarrow> s)
      else s)"

text \<open>
  Modelled from the spec: steps 2 and 3 of a tick of the missing \<open>updateGame\<close>. An alive
  actor gets its new head; if the new head lands on a food cell the score goes up by one
  and the tail stays (the actor grows by one cell), otherwise the tail cell is dropped.
\<close>

definition moveSnake :: "position list \<Rightarrow> snake \<Rightarrow> snake" where
  "moveSnake fd s =
     (if alive s
      then (case body s of
              [] \<Rightarrow> s
            | h # t \<Rightarrow>
                if calculateNewHead h (direction s) \<in> set fd
                then s\<lparr>body := calculateNewHead h (direction s) # body s, score := Suc (score s)\<rparr>
                else s\<lparr>body := calculateNewHead h (direction s) # butlast (body s)\<rparr>)
      else s)"

text \<open>
  Modelled from the spec: the food cell that step 3 of a tick removes for an actor, which
  is its new head if that landed on food.
\<close>

definition eaten :: "position list \<Rightarrow> snake \<Rightarrow> position list" where
  "eaten fd s =
     (if alive s
      then (case body s of
              [] \<Rightarrow> []
            | h # t \<Rightarrow> if calculateNewHead h (direction s) \<in> set fd
                       then [calculateNewHead h (direction s)] else [])
      else [])"

text \<open>
  Modelled from the spec: step 4 of a tick (\<open>checkSelfCollision\<close> of the missing
  game-movement.js), on the post-growth body: the new head matches a cell of the actor's
  own body other than the head itself.
\<close>

definition checkSelfCollision :: "snake \<Rightarrow> bool" where
  "checkSelfCollision s = (case body s of [] \<Rightarrow> False | h # t \<Rightarrow> h \<in> set t)"

text \<open>
  Modelled from the spec: step 5 of a tick (\<open>checkOtherSnakeCollision\<close> of the missing
  game-movement.js): the new head matches any cell of the other actor's post-growth
  body, its new head included.
\<close>

definition checkOtherSnakeCollision :: "snake \<Rightarrow> snake \<Rightarrow> bool" where
  "checkOtherSnakeCollision s other = (case body s of [] \<Rightarrow> False | h # t \<Rightarrow> h \<in> set (body other))"

text \<open>
  Modelled from the spec: the loop of step 6 of a tick, which adds a given number of food
  cells. The random choice among the free cells is the parameter \<open>pick\<close>, given the
  cells that are taken.
\<close>

fun resupply :: "(position list \<Rightarrow> position) \<Rightarrow> position list \<Rightarrow> position list \<Rightarrow> nat \<Rightarrow> position list" where
  "resupply pick occupied fd 0 = fd"
| "resupply pick occupied fd (Suc k) = resupply pick occupied (fd @ [pick (occupied @ fd)]) k"

text \<open>
  Modelled from the spec: step 6 of a tick (\<open>ensureMinimumFood\<close> of the missing
  game-food.js). Food is resupplied up to the minimum count.
\<close>

definition ensureMinimumFood ::
  "(position list \<Rightarrow> position) \<Rightarrow> position list \<Rightarrow> position list \<Rightarrow> position list" where
  "ensureMinimumFood pick occupied fd = resupply pick occupied fd (MIN_FOOD_COUNT - length fd)"

text \<open>
  Modelled from the spec: the outcome of steps 4 and 5 of a tick for one actor. An alive
  actor dies if it collides with itself or with the other actor.
\<close>

definition collide :: "snake \<Rightarrow> snake \<Rightarrow> snake" where
  "collide s other =
     (if alive s \<and> (checkSelfCollision s \<or> checkOtherSnakeCollision s other)
      then s\<lparr>alive := False\<rparr> else s)"

text \<open>
  Modelled from the spec: step 7 of a tick. Both actors dead is a tie, exactly one dead
  makes the other the winner, none dead continues.
\<close>

definition terminalWinner :: "snake \<Rightarrow> snake \<Rightarrow> player option" where
  "terminalWinner s1 s2 =
     (if alive s1 \<and> \<not> alive s2 then Some player1
      else if alive s2 \<and> \<not> alive s1 then Some player2
      else None)"

text \<open>
  Modelled from the spec: one tick (\<open>updateGame\<close> of the missing game-movement.js). Both
  actors turn and move from the same snapshot,
  the collisions are checked on the moved bodies, the eaten food is removed and the food
  resupplied, and the terminal result is set.
\<close>

definition updateGame :: "(position list \<Rightarrow> position) \<Rightarrow> game_state \<Rightarrow> game_state" where
  "updateGame pick g =
     (let t1 = applyNextDirection (snakes g player1);
          t2 = applyNextDirection (snakes g player2);
          m1 = moveSnake (food g) t1;
          m2 = moveSnake (food g) t2;
          s1 = collide m1 m2;
          s2 = collide m2 m1;
          left = filter (\<lambda>c. c \<notin> set (eaten (food g) t1 @ eaten (food g) t2)) (food g)
      in g\<lparr> snakes := (\<lambda>p. case p of player1 \<Rightarrow> s1 | player2 \<Rightarrow> s2),
            food := ensureMinimumFood pick (body s1 @ body s2) left,
            winner := terminalWinner s1 s2,
            isGameOver := (\<not> (alive s1 \<and> alive s2)),
            gameTime := Suc (gameTime g) \<rparr>)"

text \<open>
  The match states that can be reached: the initial state of \<open>createGame\<close>, then any
  sequence of queued headings and ticks.
\<close>

inductive reachable :: "game_state \<Rightarrow> bool" where
  initial: "createGame getAddress spawnFood hostEoa guestEoa = Inr g \<Longrightarrow> reachable g"
| queued: "reachable g \<Longrightarrow> reachable (changeDirection g addr d)"
| ticked: "reachable g \<Longrightarrow> reachable (updateGame pick g)"

text \<open>An actor has a head, and every cell of its body lies within the grid.\<close>

definition wellFormed :: "snake \<Rightarrow> bool" where
  "wellFormed s = (body s \<noteq> [] \<and> list_all inBounds (body s))"

text \<open>
  The successive firings of the interval of one game loop. Between two firings the room
  manager may have changed in any way: each firing of the loop of \<open>startGameLoop\<close> has a
  room manager method \<open>updateGameState\<close> of its own, and each firing of the detection loop
  is preceded by a change of the rooms.
\<close>

fun gameLoopTicks ::
  "(roomId \<Rightarrow> eoa option \<Rightarrow> game_data \<Rightarrow> (roomId \<rightharpoonup> string) \<Rightarrow> (roomId \<rightharpoonup> string) attempt) \<Rightarrow>
   roomId \<Rightarrow> nat \<Rightarrow>
   (roomId \<Rightarrow> (roomId \<rightharpoonup> room) \<Rightarrow> update_result \<times> (roomId \<rightharpoonup> room)) list \<Rightarrow>
   server \<Rightarrow> server" where
  "gameLoopTicks closeAppSession rid h [] st = st"
| "gameLoopTicks closeAppSession rid h (u # us) st =
     gameLoopTicks closeAppSession rid h us (gameLoopTick u closeAppSession rid h st)"

fun detectionTicks ::
  "(roomId \<Rightarrow> eoa option \<Rightarrow> game_data \<Rightarrow> (roomId \<rightharpoonup> string) \<Rightarrow> (roomId \<rightharpoonup> string) attempt) \<Rightarrow>
   roomId \<Rightarrow> nat \<Rightarrow> ((roomId \<rightharpoonup> room) \<Rightarrow> (roomId \<rightharpoonup> room)) list \<Rightarrow> server \<Rightarrow> server" where
  "detectionTicks closeAppSession rid h [] st = st"
| "detectionTicks closeAppSession rid h (e # es) st =
     detectionTicks closeAppSession rid h es
       (detectionTick closeAppSession rid h (st\<lparr>rooms := e (rooms st)\<rparr>))"

text \<open>
  \<open>ethers.getAddress\<close> on the addresses of the examples. A string of \<open>0x\<close> and forty
  decimal digits is an address with no letter to capitalise, so it is its own
  checksummed form and \<open>ethers.getAddress\<close> returns it as it is. What the library does on
  other strings is not needed: this instance rejects them.
\<close>

definition isDigit :: "char \<Rightarrow> bool" where
  "isDigit c = (c \<in> set ''0123456789'')"

definition digitAddress :: "string \<Rightarrow> eoa option" where
  "digitAddress s =
     (if length s = 42 \<and> take 2 s = ''0x'' \<and> list_all isDigit (drop 2 s) then Some s else None)"

text \<open>The other actor of a match.\<close>

fun otherPlayer :: "player \<Rightarrow> player" where
  "otherPlayer player1 = player2"
| "otherPlayer player2 = player1"

section \<open>Example inputs\<close>

text \<open>
  A room with both players and a stake of 1, with a given \<open>appId\<close>; a finished match with
  a given winner; a server with that room under the id \<open>r1\<close>, its game loop running on
  the interval with handle 0, and a given session storage; a ready room of two players
  with valid addresses, no game state, no \<open>appId\<close> and a stake of 1.
\<close>

definition exampleRoom :: "string option \<Rightarrow> room" where
  "exampleRoom app =
     \<lparr> host = ''0xA'', guest = Some ''0xB'', betAmount = 1, gameState = None,
       appId = app, status = playing \<rparr>"

definition exampleOver :: "player option \<Rightarrow> nat \<Rightarrow> nat \<Rightarrow> game_state" where
  "exampleOver w score1 score2 =
     \<lparr> snakes = (\<lambda>p. \<lparr> body = [(3, 3), (2, 3), (1, 3)], direction = RIGHT,
                       nextDirection = None, alive = (w = Some p),
                       score = (case p of player1 \<Rightarrow> score1 | player2 \<Rightarrow> score2) \<rparr>),
       food = [], winner = w, isGameOver = True,
       players = (\<lambda>p. case p of player1 \<Rightarrow> ''0xA'' | player2 \<Rightarrow> ''0xB''),
       gameTime = 7 \<rparr>"

definition exampleReady :: room where
  "exampleReady =
     \<lparr> host = ''0x1111111111111111111111111111111111111111'',
       guest = Some ''0x2222222222222222222222222222222222222222'',
       betAmount = 1, gameState = None, appId = None, status = ready \<rparr>"

definition exampleServer :: "room \<Rightarrow> (roomId \<rightharpoonup> string) \<Rightarrow> server" where
  "exampleServer r store =
     \<lparr> rooms = [''r1'' \<mapsto> r], gameLoops = [''r1'' \<mapsto> 0], intervals = {0}, nextHandle = 1,
       cleanups = [], outbox = [], appSessions = store, closeCalls = [], logged = [],
       exited = False \<rparr>"

text \<open>
  The match that \<open>createGame\<close> makes for the players \<open>0xA\<close> and \<open>0xB\<close> with food at
  (10, 10), (15, 5) and (8, 12), and a waiting room of host \<open>0xA\<close> with a stake of 0.1.
\<close>

definition exampleStart :: game_state where
  "exampleStart =
     \<lparr> snakes = (\<lambda>p. case p of
                    player1 \<Rightarrow> \<lparr> body = [(3, 3), (2, 3), (1, 3)], direction = RIGHT,
                                  nextDirection = None, alive = True, score = 0 \<rparr>
                  | player2 \<Rightarrow> \<lparr> body = [(16, 16), (17, 16), (18, 16)], direction = LEFT,
                                  nextDirection = None, alive = True, score = 0 \<rparr>),
       food = [(10, 10), (15, 5), (8, 12)], winner = None, isGameOver = False,
       players = (\<lambda>p. case p of player1 \<Rightarrow> ''0xA'' | player2 \<Rightarrow> ''0xB''),
       gameTime = 0 \<rparr>"

definition exampleWaiting :: room where
  "exampleWaiting =
     \<lparr> host = ''0xA'', guest = None, betAmount = 1 / 10, gameState = None,
       appId = None, status = waiting \<rparr>"

section \<open>The initial state of a match\<close>

lemma pushSegments_length: "length (pushSegments sx sy d i k) = k"
  by (induction k arbitrary: i) auto

lemma pushSegments_nth: "j < k \<Longrightarrow> pushSegments sx sy d i k ! j = segment sx sy d (i + j)"
proof (induction k arbitrary: i j)
  case 0 then show ?case by simp
next
  case (Suc k) then show ?case by (cases j) auto
qed

lemma segment_unit: "segment sx sy d i = (sx - int i * fst (unitVector d), sy - int i * snd (unitVector d))"
  by (cases d) auto

text \<open>
  Claim C9. Whenever \<open>ethers.getAddress\<close> accepts both addresses, \<open>createGame\<close> returns
  a state with two snakes, each alive, with score 0 and \<open>INITIAL_SNAKE_LENGTH\<close> = 3 body
  cells laid out contiguously opposite to the heading; the head of player 1 is at (3, 3)
  heading right, the head of player 2 at (\<open>GRID_WIDTH\<close> - 4, \<open>GRID_HEIGHT\<close> - 4) heading
  left; there are exactly three food items, no winner, the game is not over and the game
  time is 0.
\<close>

theorem createGame_initial_state:
  assumes "getAddress hostEoa = Some h" and "getAddress guestEoa = Some g"
  shows "\<exists>gs. createGame getAddress spawnFood hostEoa guestEoa = Inr gs \<and>
           (\<forall>p. alive (snakes gs p) \<and> score (snakes gs p) = 0 \<and>
                length (body (snakes gs p)) = INITIAL_SNAKE_LENGTH \<and>
                (\<forall>i<INITIAL_SNAKE_LENGTH.
                   body (snakes gs p) ! i =
                     (fst (hd (body (snakes gs p))) - int i * fst (unitVector (direction (snakes gs p))),
                      snd (hd (body (snakes gs p))) - int i * snd (unitVector (direction (snakes gs p)))))) \<and>
           INITIAL_SNAKE_LENGTH = 3 \<and>
           body (snakes gs player1) = [(3, 3), (2, 3), (1, 3)] \<and>
           direction (snakes gs player1) = RIGHT \<and>
           body (snakes gs player2) =
             [(GRID_WIDTH - 4, GRID_HEIGHT - 4), (GRID_WIDTH - 3, GRID_HEIGHT - 4),
              (GRID_WIDTH - 2, GRID_HEIGHT - 4)] \<and>
           direction (snakes gs player2) = LEFT \<and>
           length (food gs) = 3 \<and> winner gs = None \<and> \<not> isGameOver gs \<and> gameTime gs = 0 \<and>
           players gs player1 = h \<and> players gs player2 = g"
proof -
  have len: "INITIAL_SNAKE_LENGTH = Suc (Suc (Suc 0))"
    by (simp add: INITIAL_SNAKE_LENGTH_def)
  have b1: "body (createInitialSnake 3 3 RIGHT) = [(3, 3), (2, 3), (1, 3)]"
    by (simp add: createInitialSnake_def len)
  have b2: "body (createInitialSnake (GRID_WIDTH - 4) (GRID_HEIGHT - 4) LEFT) =
      [(GRID_WIDTH - 4, GRID_HEIGHT - 4), (GRID_WIDTH - 3, GRID_HEIGHT - 4),
       (GRID_WIDTH - 2, GRID_HEIGHT - 4)]"
    by (simp add: createInitialSnake_def len)
  have contiguous: "body (createInitialSnake sx sy d) ! i =
      (fst (hd (body (createInitialSnake sx sy d))) - int i * fst (unitVector (direction (createInitialSnake sx sy d))),
       snd (hd (body (createInitialSnake sx sy d))) - int i * snd (unitVector (direction (createInitialSnake sx sy d))))"
    if "i < INITIAL_SNAKE_LENGTH" for sx sy d i
  proof -
    have "hd (body (createInitialSnake sx sy d)) = (sx, sy)"
      by (cases d) (simp_all add: createInitialSnake_def len)
    moreover have "body (createInitialSnake sx sy d) ! i = segment sx sy d i"
      using that by (simp add: createInitialSnake_def pushSegments_nth)
    ultimately show ?thesis
      by (simp add: segment_unit createInitialSnake_def)
  qed
  have basics: "alive (createInitialSnake sx sy d) \<and> score (createInitialSnake sx sy d) = 0 \<and>
      length (body (createInitialSnake sx sy d)) = INITIAL_SNAKE_LENGTH \<and>
      direction (createInitialSnake sx sy d) = d" for sx sy d
    by (simp add: createInitialSnake_def pushSegments_length)
  define gs where "gs = \<lparr> snakes = (\<lambda>p. case p of
                                 player1 \<Rightarrow> createInitialSnake 3 3 RIGHT
                               | player2 \<Rightarrow> createInitialSnake (GRID_WIDTH - 4) (GRID_HEIGHT - 4) LEFT),
                     food = [spawnFood 0, spawnFood 1, spawnFood 2],
                     winner = None,
                     isGameOver = False,
                     players = (\<lambda>p. case p of player1 \<Rightarrow> h | player2 \<Rightarrow> g),
                     gameTime = 0 \<rparr>"
  have made: "createGame getAddress spawnFood hostEoa guestEoa = Inr gs"
    using assms by (simp add: createGame_def gs_def)
  have each: "alive (snakes gs p) \<and> score (snakes gs p) = 0 \<and>
      length (body (snakes gs p)) = INITIAL_SNAKE_LENGTH \<and>
      (\<forall>i<INITIAL_SNAKE_LENGTH.
         body (snakes gs p) ! i =
           (fst (hd (body (snakes gs p))) - int i * fst (unitVector (direction (snakes gs p))),
            snd (hd (body (snakes gs p))) - int i * snd (unitVector (direction (snakes gs p)))))" for p
    using basics contiguous by (cases p) (simp_all add: gs_def)
  have rest: "body (snakes gs player1) = [(3, 3), (2, 3), (1, 3)] \<and>
      direction (snakes gs player1) = RIGHT \<and>
      body (snakes gs player2) =
        [(GRID_WIDTH - 4, GRID_HEIGHT - 4), (GRID_WIDTH - 3, GRID_HEIGHT - 4),
         (GRID_WIDTH - 2, GRID_HEIGHT - 4)] \<and>
      direction (snakes gs player2) = LEFT \<and>
      length (food gs) = 3 \<and> winner gs = None \<and> \<not> isGameOver gs \<and> gameTime gs = 0 \<and>
      players gs player1 = h \<and> players gs player2 = g"
    using b1 b2 basics by (simp add: gs_def)
  have three: "INITIAL_SNAKE_LENGTH = 3"
    by (simp add: INITIAL_SNAKE_LENGTH_def)
  from made each rest three show ?thesis
    by blast
qed

theorem createGame_initial_state_witness:
  "\<exists>gs. createGame Some (\<lambda>k. (int k, 5)) ''0xA'' ''0xB'' = Inr gs \<and>
        body (snakes gs player2) = [(16, 16), (17, 16), (18, 16)] \<and>
        body (snakes gs player1) ! 2 = (1, 3) \<and>
        length (food gs) = 3 \<and> players gs player2 = ''0xB''"
  using createGame_initial_state [of Some "''0xA''" "''0xA''" "''0xB''" "''0xB''" "\<lambda>k. (int k, 5)"]
  by (auto simp: GRID_WIDTH_def GRID_HEIGHT_def)

section \<open>The message handlers\<close>

text \<open>
  Claim C6. A start-game request for an existing room by an authenticated participant
  who is not the host of the room is answered with the error \<open>NOT_AUTHORIZED\<close> and
  changes nothing else: the rooms (so the game state, the players and the phase of the
  room), the game loops, the intervals and the session storage are as before the call.
\<close>

theorem handleStartGame_not_host:
  assumes "payload = Some p" and "sp_roomId p = Some rid" and "rid \<noteq> []"
    and "findPlayer connections w = Some caller" and "caller \<noteq> []"
    and "rooms st rid = Some r" and "host r \<noteq> caller"
  shows "handleStartGame getAddress spawnFood connections w payload st =
           (Returned, st\<lparr>outbox := outbox st @
              [SendError w ''NOT_AUTHORIZED'' ''Only the host can start the game'']\<rparr>) \<and>
         rooms (snd (handleStartGame getAddress spawnFood connections w payload st)) = rooms st \<and>
         gameLoops (snd (handleStartGame getAddress spawnFood connections w payload st)) = gameLoops st \<and>
         intervals (snd (handleStartGame getAddress spawnFood connections w payload st)) = intervals st \<and>
         appSessions (snd (handleStartGame getAddress spawnFood connections w payload st)) = appSessions st"
  using assms by (simp add: handleStartGame_def sendError_def)

theorem handleStartGame_not_host_witness:
  "handleStartGame Some (\<lambda>k. (int k, 5)) [(''0xA'', 1), (''0xB'', 2)] 2
     (Some \<lparr>sp_roomId = Some ''r1''\<rparr>)
     \<lparr> rooms = [''r1'' \<mapsto> \<lparr> host = ''0xA'', guest = Some ''0xB'', betAmount = 1,
                             gameState = None, appId = None, status = ready \<rparr>],
       gameLoops = Map.empty, intervals = {}, nextHandle = 0, cleanups = [], outbox = [],
       appSessions = Map.empty, closeCalls = [], logged = [],
       exited = False \<rparr> =
   (Returned,
     \<lparr> rooms = [''r1'' \<mapsto> \<lparr> host = ''0xA'', guest = Some ''0xB'', betAmount = 1,
                             gameState = None, appId = None, status = ready \<rparr>],
       gameLoops = Map.empty, intervals = {}, nextHandle = 0, cleanups = [],
       outbox = [SendError 2 ''NOT_AUTHORIZED'' ''Only the host can start the game''],
       appSessions = Map.empty, closeCalls = [], logged = [],
       exited = False \<rparr>)"
  using handleStartGame_not_host [of "Some \<lparr>sp_roomId = Some ''r1''\<rparr>" "\<lparr>sp_roomId = Some ''r1''\<rparr>"
      "''r1''" "[(''0xA'', 1), (''0xB'', 2)]" 2 "''0xB''"
      "\<lparr> rooms = [''r1'' \<mapsto> \<lparr> host = ''0xA'', guest = Some ''0xB'', betAmount = 1,
                             gameState = None, appId = None, status = ready \<rparr>],
       gameLoops = Map.empty, intervals = {}, nextHandle = 0, cleanups = [], outbox = [],
       appSessions = Map.empty, closeCalls = [], logged = [],
       exited = False \<rparr>"
      "\<lparr> host = ''0xA'', guest = Some ''0xB'', betAmount = 1,
                             gameState = None, appId = None, status = ready \<rparr>"
      Some "\<lambda>k. (int k, 5)"]
  by simp

text \<open>
  Claim C1. The claim is that \<open>handleStartGame\<close> does not begin gameplay before the
  signature handshake has opened a session. The handler checks neither the signatures
  nor the session: called by the host of a room with two players whose addresses
  \<open>ethers.getAddress\<close> accepts, a room that has no game state, no \<open>appId\<close> and no stored
  session, it creates the game state, broadcasts \<open>game:started\<close> and starts the game loop,
  and there is still no session.
\<close>

theorem handleStartGame_starts_without_session:
  assumes "payload = Some p" and "sp_roomId p = Some rid" and "rid \<noteq> []"
    and "findPlayer connections w = Some (host r)" and "host r \<noteq> []"
    and "rooms st rid = Some r" and "guest r = Some g" and "g \<noteq> []"
    and "gameState r = None" and "appId r = None" and "appSessions st rid = None"
    and "getAddress (host r) = Some formattedHost" and "getAddress g = Some formattedGuest"
  shows "fst (handleStartGame getAddress spawnFood connections w payload st) = Returned \<and>
         gameLoops (snd (handleStartGame getAddress spawnFood connections w payload st)) rid =
           Some (nextHandle st) \<and>
         nextHandle st \<in> intervals (snd (handleStartGame getAddress spawnFood connections w payload st)) \<and>
         outbox (snd (handleStartGame getAddress spawnFood connections w payload st)) =
           outbox st @ [Broadcast rid ''game:started'', Broadcast rid ''room:state''] \<and>
         appSessions (snd (handleStartGame getAddress spawnFood connections w payload st)) rid = None \<and>
         closeCalls (snd (handleStartGame getAddress spawnFood connections w payload st)) =
           closeCalls st \<and>
         (\<exists>r' gs. rooms (snd (handleStartGame getAddress spawnFood connections w payload st)) rid =
                    Some r' \<and>
                  appId r' = None \<and> gameState r' = Some gs \<and> \<not> isGameOver gs)"
  using assms
  by (simp add: handleStartGame_def createGame_def broadcastToRoom_def startGameLoop_def Let_def
      split: option.splits)

theorem handleStartGame_starts_without_session_witness:
  "fst (handleStartGame digitAddress (\<lambda>k. (int k, 5))
          [(''0x1111111111111111111111111111111111111111'', 1),
           (''0x2222222222222222222222222222222222222222'', 2)] 1
          (Some \<lparr>sp_roomId = Some ''r1''\<rparr>)
          \<lparr> rooms = [''r1'' \<mapsto> exampleReady], gameLoops = Map.empty, intervals = {},
            nextHandle = 0, cleanups = [], outbox = [], appSessions = Map.empty,
            closeCalls = [], logged = [], exited = False \<rparr>) = Returned \<and>
   gameLoops (snd (handleStartGame digitAddress (\<lambda>k. (int k, 5))
          [(''0x1111111111111111111111111111111111111111'', 1),
           (''0x2222222222222222222222222222222222222222'', 2)] 1
          (Some \<lparr>sp_roomId = Some ''r1''\<rparr>)
          \<lparr> rooms = [''r1'' \<mapsto> exampleReady], gameLoops = Map.empty, intervals = {},
            nextHandle = 0, cleanups = [], outbox = [], appSessions = Map.empty,
            closeCalls = [], logged = [], exited = False \<rparr>)) ''r1'' = Some 0 \<and>
   0 \<in> intervals (snd (handleStartGame digitAddress (\<lambda>k. (int k, 5))
          [(''0x1111111111111111111111111111111111111111'', 1),
           (''0x2222222222222222222222222222222222222222'', 2)] 1
          (Some \<lparr>sp_roomId = Some ''r1''\<rparr>)
          \<lparr> rooms = [''r1'' \<mapsto> exampleReady], gameLoops = Map.empty, intervals = {},
            nextHandle = 0, cleanups = [], outbox = [], appSessions = Map.empty,
            closeCalls = [], logged = [], exited = False \<rparr>)) \<and>
   outbox (snd (handleStartGame digitAddress (\<lambda>k. (int k, 5))
          [(''0x1111111111111111111111111111111111111111'', 1),
           (''0x2222222222222222222222222222222222222222'', 2)] 1
          (Some \<lparr>sp_roomId = Some ''r1''\<rparr>)
          \<lparr> rooms = [''r1'' \<mapsto> exampleReady], gameLoops = Map.empty, intervals = {},
            nextHandle = 0, cleanups = [], outbox = [], appSessions = Map.empty,
            closeCalls = [], logged = [], exited = False \<rparr>)) =
     [Broadcast ''r1'' ''game:started'', Broadcast ''r1'' ''room:state''] \<and>
   appSessions (snd (handleStartGame digitAddress (\<lambda>k. (int k, 5))
          [(''0x1111111111111111111111111111111111111111'', 1),
           (''0x2222222222222222222222222222222222222222'', 2)] 1
          (Some \<lparr>sp_roomId = Some ''r1''\<rparr>)
          \<lparr> rooms = [''r1'' \<mapsto> exampleReady], gameLoops = Map.empty, intervals = {},
            nextHandle = 0, cleanups = [], outbox = [], appSessions = Map.empty,
            closeCalls = [], logged = [], exited = False \<rparr>)) ''r1'' = None"
proof -
  have host: "digitAddress ''0x1111111111111111111111111111111111111111'' =
      Some ''0x1111111111111111111111111111111111111111''"
    by (simp add: digitAddress_def isDigit_def)
  have guest: "digitAddress ''0x2222222222222222222222222222222222222222'' =
      Some ''0x2222222222222222222222222222222222222222''"
    by (simp add: digitAddress_def isDigit_def)
  show ?thesis
    using handleStartGame_starts_without_session [of "Some \<lparr>sp_roomId = Some ''r1''\<rparr>"
        "\<lparr>sp_roomId = Some ''r1''\<rparr>" "''r1''"
        "[(''0x1111111111111111111111111111111111111111'', 1),
          (''0x2222222222222222222222222222222222222222'', 2)]" 1 exampleReady
        "\<lparr> rooms = [''r1'' \<mapsto> exampleReady], gameLoops = Map.empty, intervals = {},
            nextHandle = 0, cleanups = [], outbox = [], appSessions = Map.empty,
            closeCalls = [], logged = [], exited = False \<rparr>"
        "''0x2222222222222222222222222222222222222222''" digitAddress
        "''0x1111111111111111111111111111111111111111''"
        "''0x2222222222222222222222222222222222222222''" "\<lambda>k. (int k, 5)"]
      host guest
    by (simp add: exampleReady_def)
qed

text \<open>
  Claim C10. When the room manager accepts a direction change, \<open>handleDirectionChange\<close>
  returns without sending an error, whatever \<open>addMoveToSession\<close> does (also when it
  throws), and the rooms are as \<open>processDirectionChange\<close> left them.
\<close>

theorem handleDirectionChange_tracking_failure:
  assumes "validateDirectionPayload payload = ValidationOk" and "payload = Some p"
    and "findPlayer connections w = Some caller" and "caller \<noteq> []"
    and "fst (processDirectionChange (dp_roomId p) (dp_direction p) caller (rooms st)) = ChangeOk"
  shows "fst (handleDirectionChange validateDirectionPayload processDirectionChange
                addMoveToSession connections w payload st) = Returned \<and>
         outbox (snd (handleDirectionChange validateDirectionPayload processDirectionChange
                addMoveToSession connections w payload st)) = outbox st \<and>
         rooms (snd (handleDirectionChange validateDirectionPayload processDirectionChange
                addMoveToSession connections w payload st)) =
           snd (processDirectionChange (dp_roomId p) (dp_direction p) caller (rooms st))"
  using assms by (simp add: handleDirectionChange_def Let_def)


theorem handleDirectionChange_tracking_failure_witness:
  "fst (handleDirectionChange (\<lambda>p. ValidationOk) (\<lambda>rid d e rs. (ChangeOk, rs))
          (\<lambda>rid e d store. Threw store) [(''0xA'', 1), (''0xB'', 2)] 2
          (Some \<lparr>dp_roomId = ''r1'', dp_direction = ''UP''\<rparr>)
          \<lparr> rooms = Map.empty, gameLoops = Map.empty, intervals = {}, nextHandle = 0,
            cleanups = [], outbox = [], appSessions = Map.empty, closeCalls = [],
            logged = [], exited = False \<rparr>) = Returned \<and>
   outbox (snd (handleDirectionChange (\<lambda>p. ValidationOk) (\<lambda>rid d e rs. (ChangeOk, rs))
          (\<lambda>rid e d store. Threw store) [(''0xA'', 1), (''0xB'', 2)] 2
          (Some \<lparr>dp_roomId = ''r1'', dp_direction = ''UP''\<rparr>)
          \<lparr> rooms = Map.empty, gameLoops = Map.empty, intervals = {}, nextHandle = 0,
            cleanups = [], outbox = [], appSessions = Map.empty, closeCalls = [],
            logged = [], exited = False \<rparr>)) = [] \<and>
   logged (snd (handleDirectionChange (\<lambda>p. ValidationOk) (\<lambda>rid d e rs. (ChangeOk, rs))
          (\<lambda>rid e d store. Threw store) [(''0xA'', 1), (''0xB'', 2)] 2
          (Some \<lparr>dp_roomId = ''r1'', dp_direction = ''UP''\<rparr>)
          \<lparr> rooms = Map.empty, gameLoops = Map.empty, intervals = {}, nextHandle = 0,
            cleanups = [], outbox = [], appSessions = Map.empty, closeCalls = [],
            logged = [], exited = False \<rparr>)) = [MoveTrackingFailed ''r1'']"
  using handleDirectionChange_tracking_failure [of "\<lambda>p. ValidationOk"
      "Some \<lparr>dp_roomId = ''r1'', dp_direction = ''UP''\<rparr>"
      "\<lparr>dp_roomId = ''r1'', dp_direction = ''UP''\<rparr>"
      "[(''0xA'', 1), (''0xB'', 2)]" 2 "''0xB''" "\<lambda>rid d e rs. (ChangeOk, rs)"
      "\<lparr> rooms = Map.empty, gameLoops = Map.empty, intervals = {}, nextHandle = 0,
            cleanups = [], outbox = [], appSessions = Map.empty, closeCalls = [],
            logged = [], exited = False \<rparr>" "\<lambda>rid e d store. Threw store"]
  by (simp add: handleDirectionChange_def Let_def)

section \<open>Closing the session at game over\<close>

lemma callClose_fields:
  "intervals (callClose C rid w gd st) = intervals st"
  "gameLoops (callClose C rid w gd st) = gameLoops st"
  "cleanups (callClose C rid w gd st) = cleanups st"
  "rooms (callClose C rid w gd st) = rooms st"
  "outbox (callClose C rid w gd st) = outbox st"
  "closeCalls (callClose C rid w gd st) = closeCalls st @ [(rid, w, gd)]"
  by (simp_all add: callClose_def Let_def)

lemma callClose_logged:
  "logged (callClose C rid w gd st) =
     logged st @ (if threw (C rid w gd (appSessions st)) then [CloseFailed rid] else [])"
  by (simp add: callClose_def Let_def)

lemma callClose_exited:
  "exited (callClose C rid w gd st) = (exited st \<or> nullish (C rid w gd (appSessions st)))"
  by (cases "C rid w gd (appSessions st)") (simp_all add: callClose_def Let_def)

lemma handleGameOverAppSession_fields:
  "intervals (handleGameOverAppSession C rid gs st) = intervals st"
  "gameLoops (handleGameOverAppSession C rid gs st) = gameLoops st"
  "cleanups (handleGameOverAppSession C rid gs st) = cleanups st"
  "rooms (handleGameOverAppSession C rid gs st) = rooms st"
  "outbox (handleGameOverAppSession C rid gs st) = outbox st"
  by (simp_all add: handleGameOverAppSession_def callClose_fields split: option.splits)

lemma handleGameOverAppSession_calls:
  "closeCalls (handleGameOverAppSession C rid gs st) = closeCalls st \<or>
   (\<exists>c. closeCalls (handleGameOverAppSession C rid gs st) = closeCalls st @ [c])"
  by (simp add: handleGameOverAppSession_def callClose_fields split: option.splits)

lemma handleGameOverAppSession_session:
  assumes "rooms st rid = Some r" and "truthy (appId r) \<or> hasAppSession rid (appSessions st)"
  shows "handleGameOverAppSession C rid gs st = callClose C rid (winnerEOA r gs) (gameData gs) st"
  using assms by (auto simp: handleGameOverAppSession_def)

lemma onGameOver_fields:
  "intervals (onGameOver C rid h gs st) = intervals st - {h}"
  "gameLoops (onGameOver C rid h gs st) = (gameLoops st)(rid := None)"
  "cleanups (onGameOver C rid h gs st) = cleanups st @ [rid]"
  "rooms (onGameOver C rid h gs st) = rooms st"
  "outbox (onGameOver C rid h gs st) = outbox st @ [Broadcast rid ''game:over'']"
  by (simp_all add: onGameOver_def Let_def handleGameOverAppSession_fields
      broadcastToRoom_def stopLoop_def)

lemma onGameOver_calls:
  "closeCalls (onGameOver C rid h gs st) = closeCalls st \<or>
   (\<exists>c. closeCalls (onGameOver C rid h gs st) = closeCalls st @ [c])"
  using handleGameOverAppSession_calls [of C rid gs "broadcastToRoom rid ''game:over'' (stopLoop rid h st)"]
  by (simp add: onGameOver_def Let_def broadcastToRoom_def stopLoop_def)

lemma gameLoopTick_over:
  assumes "\<not> exited st" and "h \<in> intervals st" and "fst (U rid (rooms st)) = Updated gs True"
  shows "gameLoopTick U C rid h st =
           onGameOver C rid h gs (broadcastToRoom rid ''game:update'' (st\<lparr>rooms := snd (U rid (rooms st))\<rparr>))"
  using assms by (simp add: gameLoopTick_def Let_def)

text \<open>
  One firing of a loop either makes no call to \<open>closeAppSession\<close>, or makes one call and
  leaves the interval cleared; a cleared interval stays cleared.
\<close>

lemma gameLoopTick_step:
  "(closeCalls (gameLoopTick U C rid h st) = closeCalls st \<or>
    (\<exists>c. closeCalls (gameLoopTick U C rid h st) = closeCalls st @ [c]) \<and>
    h \<notin> intervals (gameLoopTick U C rid h st)) \<and>
   (h \<notin> intervals st \<longrightarrow> gameLoopTick U C rid h st = st)"
proof (cases "exited st \<or> h \<notin> intervals st")
  case True
  then show ?thesis by (auto simp: gameLoopTick_def)
next
  case False
  then have running: "\<not> exited st" "h \<in> intervals st" by simp_all
  show ?thesis
  proof (cases "fst (U rid (rooms st))")
    case (UpdateFailed e)
    with running show ?thesis by (simp add: gameLoopTick_def stopLoop_def)
  next
    case (Updated gs over)
    show ?thesis
    proof (cases over)
      case False
      with Updated running show ?thesis by (simp add: gameLoopTick_def broadcastToRoom_def)
    next
      case True
      with Updated running have eq: "gameLoopTick U C rid h st =
          onGameOver C rid h gs (broadcastToRoom rid ''game:update'' (st\<lparr>rooms := snd (U rid (rooms st))\<rparr>))"
        by (simp add: gameLoopTick_over)
      show ?thesis
        using running onGameOver_calls [of C rid h gs
            "broadcastToRoom rid ''game:update'' (st\<lparr>rooms := snd (U rid (rooms st))\<rparr>)"]
        by (simp add: eq onGameOver_fields broadcastToRoom_def)
    qed
  qed
qed

lemma detectionTick_step:
  "(closeCalls (detectionTick C rid h st) = closeCalls st \<or>
    (\<exists>c. closeCalls (detectionTick C rid h st) = closeCalls st @ [c]) \<and>
    h \<notin> intervals (detectionTick C rid h st)) \<and>
   (h \<notin> intervals st \<longrightarrow> detectionTick C rid h st = st)"
proof (cases "exited st \<or> h \<notin> intervals st")
  case True
  then show ?thesis by (auto simp: detectionTick_def)
next
  case False
  then have running: "\<not> exited st" "h \<in> intervals st" by simp_all
  show ?thesis
  proof (cases "rooms st rid")
    case None
    with running show ?thesis by (simp add: detectionTick_def stopLoop_def)
  next
    case (Some r)
    show ?thesis
    proof (cases "gameState r")
      case None
      with Some running show ?thesis by (simp add: detectionTick_def stopLoop_def)
    next
      case (Some gs)
      show ?thesis
      proof (cases "isGameOver gs")
        case False
        with Some \<open>rooms st rid = Some r\<close> running show ?thesis by (simp add: detectionTick_def)
      next
        case True
        with Some \<open>rooms st rid = Some r\<close> running
        have eq: "detectionTick C rid h st = onGameOver C rid h gs st"
          by (simp add: detectionTick_def)
        show ?thesis
          using running onGameOver_calls [of C rid h gs st]
          by (simp add: eq onGameOver_fields)
      qed
    qed
  qed
qed

lemma gameLoopTicks_calls:
  "(h \<notin> intervals st \<longrightarrow> closeCalls (gameLoopTicks C rid h us st) = closeCalls st) \<and>
   length (closeCalls (gameLoopTicks C rid h us st)) \<le> Suc (length (closeCalls st))"
proof (induction us arbitrary: st)
  case Nil
  show ?case by simp
next
  case (Cons u us)
  let ?st' = "gameLoopTick u C rid h st"
  note step = gameLoopTick_step [of u C rid h st]
  have cleared: "closeCalls (gameLoopTicks C rid h (u # us) st) = closeCalls st"
    if "h \<notin> intervals st"
    using that step Cons.IH [of st] by simp
  have bound: "length (closeCalls (gameLoopTicks C rid h (u # us) st)) \<le> Suc (length (closeCalls st))"
  proof (cases "closeCalls ?st' = closeCalls st")
    case True
    then show ?thesis using Cons.IH [of ?st'] by simp
  next
    case False
    with step obtain c where "closeCalls ?st' = closeCalls st @ [c]" and "h \<notin> intervals ?st'"
      by blast
    then show ?thesis using Cons.IH [of ?st'] by simp
  qed
  from cleared bound show ?case by blast
qed

lemma detectionTicks_calls:
  "(h \<notin> intervals st \<longrightarrow> closeCalls (detectionTicks C rid h es st) = closeCalls st) \<and>
   length (closeCalls (detectionTicks C rid h es st)) \<le> Suc (length (closeCalls st))"
proof (induction es arbitrary: st)
  case Nil
  show ?case by simp
next
  case (Cons e es)
  let ?st0 = "st\<lparr>rooms := e (rooms st)\<rparr>"
  let ?st' = "detectionTick C rid h ?st0"
  note step = detectionTick_step [of C rid h ?st0]
  have cleared: "closeCalls (detectionTicks C rid h (e # es) st) = closeCalls st"
    if "h \<notin> intervals st"
    using that step Cons.IH [of ?st0] by simp
  have bound: "length (closeCalls (detectionTicks C rid h (e # es) st)) \<le> Suc (length (closeCalls st))"
  proof (cases "closeCalls ?st' = closeCalls ?st0")
    case True
    then show ?thesis using Cons.IH [of ?st'] by simp
  next
    case False
    with step obtain c where "closeCalls ?st' = closeCalls ?st0 @ [c]" and "h \<notin> intervals ?st'"
      by blast
    then show ?thesis using Cons.IH [of ?st'] by simp
  qed
  from cleared bound show ?case by blast
qed

lemma handleGameOverAppSession_no_call:
  "closeCalls (handleGameOverAppSession C rid gs st) = closeCalls st \<longleftrightarrow>
     (rooms st rid = None \<or>
      (\<exists>r. rooms st rid = Some r \<and> \<not> truthy (appId r) \<and> \<not> hasAppSession rid (appSessions st)))"
  by (auto simp: handleGameOverAppSession_def callClose_fields split: option.splits)

text \<open>
  Claim C2, as the code has it. Over all the firings of one game loop, of either kind and
  whatever happens to the rooms in between, \<open>closeAppSession\<close> is called at most once:
  the handling of a game over clears the interval of the loop, and a firing of a cleared
  interval is a no-op. \<open>handleGameOverAppSession\<close> itself keeps no record of a close: a
  trigger makes no call to \<open>closeAppSession\<close> exactly when the room is gone, or when the
  room has no \<open>appId\<close> and the storage has no session for the room, and then it leaves
  the session storage and the rooms as they are; in every other case it calls
  \<open>closeAppSession\<close>, also when it did so before.
\<close>

theorem close_once_per_loop:
  "length (closeCalls (gameLoopTicks C rid h us st)) \<le> Suc (length (closeCalls st)) \<and>
   length (closeCalls (detectionTicks C rid h es st)) \<le> Suc (length (closeCalls st)) \<and>
   h \<notin> intervals (onGameOver C rid h gs st) \<and>
   (h \<notin> intervals st \<longrightarrow> gameLoopTick U C rid h st = st \<and> detectionTick C rid h st = st) \<and>
   (closeCalls (handleGameOverAppSession C rid' gs' s) = closeCalls s \<longleftrightarrow>
      (rooms s rid' = None \<or>
       (\<exists>r. rooms s rid' = Some r \<and> \<not> truthy (appId r) \<and>
            \<not> hasAppSession rid' (appSessions s)))) \<and>
   (closeCalls (handleGameOverAppSession C rid' gs' s) = closeCalls s \<longrightarrow>
      appSessions (handleGameOverAppSession C rid' gs' s) = appSessions s \<and>
      rooms (handleGameOverAppSession C rid' gs' s) = rooms s)"
proof -
  have loops: "length (closeCalls (gameLoopTicks C rid h us st)) \<le> Suc (length (closeCalls st))"
    "length (closeCalls (detectionTicks C rid h es st)) \<le> Suc (length (closeCalls st))"
    using gameLoopTicks_calls [of h st C rid us] detectionTicks_calls [of h st C rid es]
    by simp_all
  have cleared: "h \<notin> intervals (onGameOver C rid h gs st)"
    by (simp add: onGameOver_fields)
  have late: "h \<notin> intervals st \<longrightarrow> gameLoopTick U C rid h st = st \<and> detectionTick C rid h st = st"
    using gameLoopTick_step [of U C rid h st] detectionTick_step [of C rid h st] by simp
  note iff = handleGameOverAppSession_no_call [of C rid' gs' s]
  have same: "appSessions (handleGameOverAppSession C rid' gs' s) = appSessions s \<and>
      rooms (handleGameOverAppSession C rid' gs' s) = rooms s"
    if "closeCalls (handleGameOverAppSession C rid' gs' s) = closeCalls s"
    using that iff by (auto simp: handleGameOverAppSession_def handleGameOverAppSession_fields)
  from loops cleared late iff same show ?thesis by blast
qed

theorem close_once_per_loop_witness:
  "length (closeCalls (gameLoopTicks (\<lambda>rid w gd store. Completed (store(rid := None))) ''r1'' 0
      [\<lambda>rid rs. (Updated (exampleOver None 0 0) False, rs),
       \<lambda>rid rs. (Updated (exampleOver None 0 0) True, rs),
       \<lambda>rid rs. (Updated (exampleOver None 0 0) True, rs)]
      (exampleServer (exampleRoom None) [''r1'' \<mapsto> ''app1'']))) = 1 \<and>
   closeCalls (handleGameOverAppSession (\<lambda>rid w gd store. Completed (store(rid := None)))
     ''r1'' (exampleOver None 0 0) (exampleServer (exampleRoom None) Map.empty)) = []"
  using close_once_per_loop [of "\<lambda>rid w gd store. Completed (store(rid := None))" "''r1''" 0
      "[\<lambda>rid rs. (Updated (exampleOver None 0 0) False, rs),
        \<lambda>rid rs. (Updated (exampleOver None 0 0) True, rs),
        \<lambda>rid rs. (Updated (exampleOver None 0 0) True, rs)]"
      "exampleServer (exampleRoom None) [''r1'' \<mapsto> ''app1'']" "[]" "exampleOver None 0 0"
      "\<lambda>rid rs. (Updated (exampleOver None 0 0) True, rs)" "''r1''" "exampleOver None 0 0"
      "exampleServer (exampleRoom None) Map.empty"]
  by (simp add: gameLoopTick_def onGameOver_def handleGameOverAppSession_def callClose_def
      broadcastToRoom_def stopLoop_def hasAppSession_def exampleServer_def exampleRoom_def Let_def)

text \<open>
  Claim C2 as stated fails: for a room whose \<open>appId\<close> is set, a second game-over trigger
  after a close that completed (and removed the session from the storage) calls
  \<open>closeAppSession\<close> a second time.
\<close>

theorem close_repeated_counterexample:
  "appSessions (handleGameOverAppSession (\<lambda>rid w gd store. Completed (store(rid := None)))
      ''r1'' (exampleOver (Some player1) 0 0)
      (exampleServer (exampleRoom (Some ''app1'')) [''r1'' \<mapsto> ''app1''])) ''r1'' = None \<and>
   length (closeCalls (handleGameOverAppSession (\<lambda>rid w gd store. Completed (store(rid := None)))
      ''r1'' (exampleOver (Some player1) 0 0)
      (exampleServer (exampleRoom (Some ''app1'')) [''r1'' \<mapsto> ''app1'']))) = 1 \<and>
   length (closeCalls (handleGameOverAppSession (\<lambda>rid w gd store. Completed (store(rid := None)))
      ''r1'' (exampleOver (Some player1) 0 0)
      (handleGameOverAppSession (\<lambda>rid w gd store. Completed (store(rid := None)))
         ''r1'' (exampleOver (Some player1) 0 0)
         (exampleServer (exampleRoom (Some ''app1'')) [''r1'' \<mapsto> ''app1''])))) = 2"
  by (simp add: handleGameOverAppSession_def callClose_def exampleServer_def exampleRoom_def
      Let_def)

text \<open>
  Claim C7, as the code has it. At a game over of a room that has a session,
  \<open>closeAppSession\<close> is called exactly once, whether it completes or throws (there is no
  retry); when it throws a value other than \<open>null\<close> and \<open>undefined\<close> the failure is
  caught and logged, the process keeps running and the room is retired as it is after a
  close that completed: the loop is stopped, the cleanup of the room is scheduled, and
  when the timeout fires the room is removed.
\<close>

theorem cleanup_despite_close_failure:
  assumes "\<not> exited st" and "h \<in> intervals st"
    and "U rid (rooms st) = (Updated gs True, rs)" and "rs rid = Some r"
    and "truthy (appId r) \<or> hasAppSession rid (appSessions st)"
    and "\<not> nullish (C rid (winnerEOA r gs) (gameData gs) (appSessions st))"
  shows "closeCalls (gameLoopTick U C rid h st) =
           closeCalls st @ [(rid, winnerEOA r gs, gameData gs)] \<and>
         logged (gameLoopTick U C rid h st) =
           logged st @ (if threw (C rid (winnerEOA r gs) (gameData gs) (appSessions st))
                        then [CloseFailed rid] else []) \<and>
         \<not> exited (gameLoopTick U C rid h st) \<and>
         h \<notin> intervals (gameLoopTick U C rid h st) \<and>
         gameLoops (gameLoopTick U C rid h st) rid = None \<and>
         rid \<in> set (cleanups (gameLoopTick U C rid h st)) \<and>
         rooms (fireCleanup rid (gameLoopTick U C rid h st)) rid = None"
proof -
  let ?st1 = "broadcastToRoom rid ''game:over''
      (stopLoop rid h (broadcastToRoom rid ''game:update'' (st\<lparr>rooms := rs\<rparr>)))"
  let ?st' = "gameLoopTick U C rid h st"
  have eq: "?st' = onGameOver C rid h gs (broadcastToRoom rid ''game:update'' (st\<lparr>rooms := rs\<rparr>))"
    using gameLoopTick_over [of st h U rid gs C] assms(1-3) by simp
  have room: "rooms ?st1 rid = Some r" and store: "appSessions ?st1 = appSessions st"
    and quiet: "logged ?st1 = logged st" "closeCalls ?st1 = closeCalls st" "exited ?st1 = exited st"
    using assms(4) by (simp_all add: broadcastToRoom_def stopLoop_def)
  have close: "handleGameOverAppSession C rid gs ?st1 =
      callClose C rid (winnerEOA r gs) (gameData gs) ?st1"
    using room assms(5) store by (intro handleGameOverAppSession_session) simp_all
  have calls: "closeCalls ?st' = closeCalls st @ [(rid, winnerEOA r gs, gameData gs)]"
    by (simp add: eq onGameOver_def Let_def close callClose_fields quiet)
  have log: "logged ?st' = logged st @
      (if threw (C rid (winnerEOA r gs) (gameData gs) (appSessions st)) then [CloseFailed rid] else [])"
    by (simp add: eq onGameOver_def Let_def close callClose_logged quiet store)
  have alive: "\<not> exited ?st'"
    using assms(1,6) by (simp add: eq onGameOver_def Let_def close callClose_exited quiet store)
  have stopped: "h \<notin> intervals ?st'" "gameLoops ?st' rid = None" "rid \<in> set (cleanups ?st')"
    by (simp_all add: eq onGameOver_fields)
  have retired: "rooms (fireCleanup rid ?st') rid = None"
    using alive stopped(3) by (simp add: fireCleanup_def closeRoom_def)
  from calls log alive stopped retired show ?thesis by blast
qed

theorem cleanup_despite_close_failure_witness:
  "logged (gameLoopTick (\<lambda>rid rs. (Updated (exampleOver None 0 0) True, rs))
     (\<lambda>rid w gd store. Threw store) ''r1'' 0
     (exampleServer (exampleRoom None) [''r1'' \<mapsto> ''app1''])) = [CloseFailed ''r1''] \<and>
   ''r1'' \<in> set (cleanups (gameLoopTick (\<lambda>rid rs. (Updated (exampleOver None 0 0) True, rs))
     (\<lambda>rid w gd store. Threw store) ''r1'' 0
     (exampleServer (exampleRoom None) [''r1'' \<mapsto> ''app1'']))) \<and>
   rooms (fireCleanup ''r1'' (gameLoopTick (\<lambda>rid rs. (Updated (exampleOver None 0 0) True, rs))
     (\<lambda>rid w gd store. Threw store) ''r1'' 0
     (exampleServer (exampleRoom None) [''r1'' \<mapsto> ''app1'']))) ''r1'' = None"
  using cleanup_despite_close_failure [of "exampleServer (exampleRoom None) [''r1'' \<mapsto> ''app1'']" 0
      "\<lambda>rid rs. (Updated (exampleOver None 0 0) True, rs)" "''r1''" "exampleOver None 0 0"
      "[''r1'' \<mapsto> exampleRoom None]" "exampleRoom None" "\<lambda>rid w gd store. Threw store"]
  by (simp add: exampleServer_def hasAppSession_def)

text \<open>
  Claim C7 as stated fails: when \<open>closeAppSession\<close> throws at game over, the failure is
  logged and the close has been called exactly once; the session stays in the storage.
\<close>

theorem close_not_retried_counterexample:
  "length (closeCalls (gameLoopTick (\<lambda>rid rs. (Updated (exampleOver None 0 0) True, rs))
     (\<lambda>rid w gd store. Threw store) ''r1'' 0
     (exampleServer (exampleRoom None) [''r1'' \<mapsto> ''app1'']))) = 1 \<and>
   logged (gameLoopTick (\<lambda>rid rs. (Updated (exampleOver None 0 0) True, rs))
     (\<lambda>rid w gd store. Threw store) ''r1'' 0
     (exampleServer (exampleRoom None) [''r1'' \<mapsto> ''app1''])) = [CloseFailed ''r1''] \<and>
   appSessions (gameLoopTick (\<lambda>rid rs. (Updated (exampleOver None 0 0) True, rs))
     (\<lambda>rid w gd store. Threw store) ''r1'' 0
     (exampleServer (exampleRoom None) [''r1'' \<mapsto> ''app1''])) ''r1'' = Some ''app1''"
  by (simp add: gameLoopTick_def onGameOver_def handleGameOverAppSession_def callClose_def
      broadcastToRoom_def stopLoop_def hasAppSession_def exampleServer_def exampleRoom_def Let_def)

text \<open>
  The case that claim C7 leaves out: when \<open>closeAppSession\<close> throws \<open>null\<close> or
  \<open>undefined\<close>, the \<open>catch\<close> block throws on \<open>error.stack\<close>, the rejection is unhandled,
  the process ends and the timeout of the cleanup never fires.
\<close>

lemma close_throwing_null_ends_process:
  assumes "\<not> exited st" and "h \<in> intervals st"
    and "U rid (rooms st) = (Updated gs True, rs)" and "rs rid = Some r"
    and "truthy (appId r) \<or> hasAppSession rid (appSessions st)"
    and "nullish (C rid (winnerEOA r gs) (gameData gs) (appSessions st))"
  shows "exited (gameLoopTick U C rid h st) \<and>
         fireCleanup rid (gameLoopTick U C rid h st) = gameLoopTick U C rid h st \<and>
         rooms (gameLoopTick U C rid h st) rid = Some r"
proof -
  let ?st1 = "broadcastToRoom rid ''game:over''
      (stopLoop rid h (broadcastToRoom rid ''game:update'' (st\<lparr>rooms := rs\<rparr>)))"
  let ?st' = "gameLoopTick U C rid h st"
  have eq: "?st' = onGameOver C rid h gs (broadcastToRoom rid ''game:update'' (st\<lparr>rooms := rs\<rparr>))"
    using gameLoopTick_over [of st h U rid gs C] assms(1-3) by simp
  have room: "rooms ?st1 rid = Some r" and store: "appSessions ?st1 = appSessions st"
    using assms(4) by (simp_all add: broadcastToRoom_def stopLoop_def)
  have close: "handleGameOverAppSession C rid gs ?st1 =
      callClose C rid (winnerEOA r gs) (gameData gs) ?st1"
    using room assms(5) store by (intro handleGameOverAppSession_session) simp_all
  have ended: "exited ?st'"
    using assms(6) by (simp add: eq onGameOver_def Let_def close callClose_exited store)
  have kept: "rooms ?st' rid = Some r"
    using assms(4) by (simp add: eq onGameOver_fields broadcastToRoom_def)
  from ended kept show ?thesis by (simp add: fireCleanup_def)
qed

section \<open>Stakes, joining and the final allocation\<close>

text \<open>
  Claim C3. At game over the close is called with the winner's address determined from
  the terminal result alone, and the allocation is a function of that result only: the
  host takes the full pot (twice the stake) and the guest 0 when player 1 is the winner,
  the guest takes the full pot and the host 0 when player 2 is the winner, and on a tie
  each participant is allocated the original stake. Two final states with the same
  winner, whatever their scores, give the same allocation.
\<close>

theorem closeAllocation_by_result:
  assumes "guest r = Some g" and "host r \<noteq> g"
    and "rooms st rid = Some r" and "hasAppSession rid (appSessions st)"
  shows "closeCalls (handleGameOverAppSession C rid gs st) =
           closeCalls st @ [(rid, winnerEOA r gs, gameData gs)] \<and>
         closeAllocation r gs =
           (case winner gs of
              Some player1 \<Rightarrow> [(host r, 2 * betAmount r), (g, 0)]
            | Some player2 \<Rightarrow> [(host r, 0), (g, 2 * betAmount r)]
            | None \<Rightarrow> [(host r, betAmount r), (g, betAmount r)]) \<and>
         (\<forall>gs'. winner gs' = winner gs \<longrightarrow> closeAllocation r gs' = closeAllocation r gs)"
proof -
  have call: "closeCalls (handleGameOverAppSession C rid gs st) =
           closeCalls st @ [(rid, winnerEOA r gs, gameData gs)]"
    using assms(3,4) by (simp add: handleGameOverAppSession_def callClose_def Let_def)
  have alloc: "closeAllocation r gs =
           (case winner gs of
              Some player1 \<Rightarrow> [(host r, 2 * betAmount r), (g, 0)]
            | Some player2 \<Rightarrow> [(host r, 0), (g, 2 * betAmount r)]
            | None \<Rightarrow> [(host r, betAmount r), (g, betAmount r)])"
    using assms(1,2)
    by (auto simp: closeAllocation_def finalAllocation_def winnerEOA_def
        split: option.splits player.splits)
  have same: "closeAllocation r gs' = closeAllocation r gs" if "winner gs' = winner gs" for gs'
    using that by (simp add: closeAllocation_def winnerEOA_def)
  from call alloc same show ?thesis by blast
qed

theorem closeAllocation_by_result_witness:
  "closeAllocation (exampleRoom None) (exampleOver (Some player2) 5 1) = [(''0xA'', 0), (''0xB'', 2)] \<and>
   closeAllocation (exampleRoom None) (exampleOver None 5 1) = [(''0xA'', 1), (''0xB'', 1)] \<and>
   length (closeCalls (handleGameOverAppSession (\<lambda>rid w gd store. Completed (store(rid := None)))
      ''r1'' (exampleOver (Some player2) 5 1)
      (exampleServer (exampleRoom None) [''r1'' \<mapsto> ''app1'']))) = 1"
  using closeAllocation_by_result [of "exampleRoom None" "''0xB''"
      "exampleServer (exampleRoom None) [''r1'' \<mapsto> ''app1'']" "''r1''"
      "\<lambda>rid w gd store. Completed (store(rid := None))" "exampleOver (Some player2) 5 1"]
    closeAllocation_by_result [of "exampleRoom None" "''0xB''"
      "exampleServer (exampleRoom None) [''r1'' \<mapsto> ''app1'']" "''r1''"
      "\<lambda>rid w gd store. Completed (store(rid := None))" "exampleOver None 5 1"]
  by (simp add: exampleRoom_def exampleOver_def exampleServer_def hasAppSession_def)

text \<open>
  Claim C8. A join of a waiting room without a guest fails with \<open>StakeMismatch\<close> when the
  offered stake differs from the host's (no new room table is produced, so the room stays
  waiting without a guest); with the matching stake the guest is set, the room becomes
  ready and its snapshot goes to the host and the guest. The valid stakes are exactly
  0, 0.01, 0.1, 1 and 2: \<open>createRoom\<close> fails with \<open>InvalidStake\<close> for any other stake and
  otherwise makes a waiting room.
\<close>

theorem joinRoom_stake:
  assumes "rs rid = Some r" and "status r = waiting" and "guest r = None"
  shows "(stake \<noteq> betAmount r \<longrightarrow> joinRoom rid guestId stake rs = Inl StakeMismatch) \<and>
         (stake = betAmount r \<longrightarrow>
            joinRoom rid guestId stake rs =
              Inr (r\<lparr>guest := Some guestId, status := ready\<rparr>,
                   rs(rid \<mapsto> r\<lparr>guest := Some guestId, status := ready\<rparr>)) \<and>
            notified (r\<lparr>guest := Some guestId, status := ready\<rparr>) = [host r, guestId]) \<and>
         (isValidBetAmount stake \<longleftrightarrow> stake \<in> {0, 1 / 100, 1 / 10, 1, 2}) \<and>
         (createRoom newId hostId stake rs = Inl InvalidStake \<longleftrightarrow>
            stake \<notin> {0, 1 / 100, 1 / 10, 1, 2}) \<and>
         (isValidBetAmount stake \<longrightarrow>
            (\<exists>rs'. createRoom newId hostId stake rs = Inr (newId, rs') \<and>
                   rs' newId = Some \<lparr> host = hostId, guest = None, betAmount = stake,
                                      gameState = None, appId = None, status = waiting \<rparr>))"
proof -
  have valid: "isValidBetAmount stake \<longleftrightarrow> stake \<in> {0, 1 / 100, 1 / 10, 1, 2}"
    by (auto simp: isValidBetAmount_def VALID_BET_AMOUNTS_def)
  have join: "(stake \<noteq> betAmount r \<longrightarrow> joinRoom rid guestId stake rs = Inl StakeMismatch) \<and>
         (stake = betAmount r \<longrightarrow>
            joinRoom rid guestId stake rs =
              Inr (r\<lparr>guest := Some guestId, status := ready\<rparr>,
                   rs(rid \<mapsto> r\<lparr>guest := Some guestId, status := ready\<rparr>)) \<and>
            notified (r\<lparr>guest := Some guestId, status := ready\<rparr>) = [host r, guestId])"
    using assms by (auto simp: joinRoom_def notified_def)
  have create: "createRoom newId hostId stake rs = Inl InvalidStake \<longleftrightarrow>
            stake \<notin> {0, 1 / 100, 1 / 10, 1, 2}"
    using valid by (simp add: createRoom_def)
  have created: "isValidBetAmount stake \<longrightarrow>
            (\<exists>rs'. createRoom newId hostId stake rs = Inr (newId, rs') \<and>
                   rs' newId = Some \<lparr> host = hostId, guest = None, betAmount = stake,
                                      gameState = None, appId = None, status = waiting \<rparr>)"
    by (simp add: createRoom_def)
  from valid join create created show ?thesis by blast
qed

theorem joinRoom_stake_witness:
  "joinRoom ''r1'' ''0xB'' 1 [''r1'' \<mapsto> exampleWaiting] = Inl StakeMismatch \<and>
   joinRoom ''r1'' ''0xB'' (1 / 10) [''r1'' \<mapsto> exampleWaiting] =
     Inr (exampleWaiting\<lparr>guest := Some ''0xB'', status := ready\<rparr>,
          [''r1'' \<mapsto> exampleWaiting\<lparr>guest := Some ''0xB'', status := ready\<rparr>]) \<and>
   notified (exampleWaiting\<lparr>guest := Some ''0xB'', status := ready\<rparr>) = [''0xA'', ''0xB'']"
  using joinRoom_stake [of "[''r1'' \<mapsto> exampleWaiting]" "''r1''" exampleWaiting 1 "''0xB''"]
    joinRoom_stake [of "[''r1'' \<mapsto> exampleWaiting]" "''r1''" exampleWaiting "1 / 10" "''0xB''"]
  by (simp add: exampleWaiting_def)

section \<open>Headings and movement on the torus\<close>

lemma updateGame_snake:
  "snakes (updateGame pick g) p =
     collide (moveSnake (food g) (applyNextDirection (snakes g p)))
       (moveSnake (food g) (applyNextDirection (snakes g (otherPlayer p))))"
  by (cases p) (simp_all add: updateGame_def Let_def)

lemma collide_fields:
  "body (collide s other) = body s"
  "direction (collide s other) = direction s"
  by (simp_all add: collide_def)

lemma moveSnake_direction: "direction (moveSnake fd s) = direction s"
  by (simp add: moveSnake_def split: list.splits)

lemma moveSnake_alive: "alive (moveSnake fd s) = alive s"
  by (simp add: moveSnake_def split: list.splits)

lemma applyNextDirection_fields:
  "body (applyNextDirection s) = body s"
  "alive (applyNextDirection s) = alive s"
  by (simp_all add: applyNextDirection_def split: option.splits)

lemma updateGame_direction:
  "direction (snakes (updateGame pick g) p) = direction (applyNextDirection (snakes g p))"
  by (simp add: updateGame_snake collide_fields moveSnake_direction)

text \<open>
  Claim C4. In a tick the heading of an alive actor becomes its queued next heading,
  whatever that heading is. In particular a participant who queues the heading opposite
  to the current one gets it applied: there is no reversal lockout.
\<close>

theorem queued_heading_applied:
  assumes "alive (snakes g p)" and "nextDirection (snakes g p) = Some q"
  shows "direction (snakes (updateGame pick g) p) = q \<and>
         (players g p = addr \<and> (players g player1 = addr \<longrightarrow> p = player1) \<longrightarrow>
            direction (snakes (updateGame pick
              (changeDirection g addr (opposite (direction (snakes g p))))) p) =
              opposite (direction (snakes g p)))"
proof -
  have first: "direction (snakes (updateGame pick g) p) = q"
    using assms by (simp add: updateGame_direction applyNextDirection_def)
  have second: "direction (snakes (updateGame pick (changeDirection g addr d)) p) = d"
    if "players g p = addr" and "players g player1 = addr \<longrightarrow> p = player1" for d
    using that assms(1)
    by (cases p) (auto simp: updateGame_direction applyNextDirection_def changeDirection_def)
  from first second show ?thesis by blast
qed

theorem queued_heading_applied_witness:
  "direction (snakes (updateGame (\<lambda>taken. (0, 0)) (changeDirection exampleStart ''0xA'' LEFT)) player1) = LEFT \<and>
   direction (snakes exampleStart player1) = RIGHT"
  using queued_heading_applied [of "changeDirection exampleStart ''0xA'' LEFT" player1 LEFT
      "\<lambda>taken. (0, 0)" "''0xA''"]
  by (simp add: exampleStart_def changeDirection_def)

lemma jsRem_wrap:
  assumes "0 < b" and "0 \<le> a + b"
  shows "jsRem (a + b) b = a mod b"
proof -
  have shift: "(a + b) mod b = a mod b"
    by simp
  show ?thesis
  proof (cases "a + b = 0")
    case True
    with shift show ?thesis by (simp add: jsRem_def)
  next
    case False
    with assms have "0 < a + b" by simp
    with assms(1) shift show ?thesis by (simp add: jsRem_def)
  qed
qed

lemma unitVector_range:
  "- 1 \<le> fst (unitVector d)" "- 1 \<le> snd (unitVector d)"
  by (cases d; simp)+

lemma calculateNewHead_wrap:
  assumes "inBounds h"
  shows "calculateNewHead h d =
           ((fst h + fst (unitVector d)) mod GRID_WIDTH, (snd h + snd (unitVector d)) mod GRID_HEIGHT)"
proof -
  have x: "0 \<le> fst h + fst (unitVector d) + GRID_WIDTH"
    using assms unitVector_range(1) [of d] by (simp add: inBounds_def GRID_WIDTH_def)
  have y: "0 \<le> snd h + snd (unitVector d) + GRID_HEIGHT"
    using assms unitVector_range(2) [of d] by (simp add: inBounds_def GRID_HEIGHT_def)
  have "0 < GRID_WIDTH" "0 < GRID_HEIGHT"
    by (simp_all add: GRID_WIDTH_def GRID_HEIGHT_def)
  then show ?thesis
    using jsRem_wrap [OF _ x] jsRem_wrap [OF _ y] by (simp add: calculateNewHead_def)
qed

lemma calculateNewHead_inBounds:
  assumes "inBounds h"
  shows "inBounds (calculateNewHead h d)"
  by (simp add: calculateNewHead_wrap [OF assms] inBounds_def GRID_WIDTH_def GRID_HEIGHT_def)

lemma list_all_butlast: "list_all P xs \<Longrightarrow> list_all P (butlast xs)"
  by (induction xs) auto

lemma moveSnake_wellFormed:
  assumes "wellFormed s"
  shows "wellFormed (moveSnake fd s)"
proof (cases "body s")
  case Nil
  with assms show ?thesis by (simp add: wellFormed_def)
next
  case (Cons h t)
  with assms have "inBounds h" by (simp add: wellFormed_def)
  then have "inBounds (calculateNewHead h (direction s))"
    by (rule calculateNewHead_inBounds)
  with assms Cons show ?thesis
    using list_all_butlast [of inBounds "h # t"]
    by (auto simp: moveSnake_def wellFormed_def)
qed

lemma updateGame_wellFormed:
  assumes "wellFormed (snakes g p)"
  shows "wellFormed (snakes (updateGame pick g) p)"
proof -
  have "wellFormed (applyNextDirection (snakes g p))"
    using assms by (simp add: wellFormed_def applyNextDirection_fields)
  then have "wellFormed (moveSnake (food g) (applyNextDirection (snakes g p)))"
    by (rule moveSnake_wellFormed)
  then show ?thesis
    by (simp add: updateGame_snake wellFormed_def collide_fields)
qed

lemma changeDirection_body: "body (snakes (changeDirection g addr d) p) = body (snakes g p)"
  by (simp add: changeDirection_def)

lemma createInitialSnake_bodies:
  "body (createInitialSnake 3 3 RIGHT) = [(3, 3), (2, 3), (1, 3)]"
  "body (createInitialSnake 16 16 LEFT) = [(16, 16), (17, 16), (18, 16)]"
  by (simp_all add: createInitialSnake_def INITIAL_SNAKE_LENGTH_def numeral_3_eq_3)

lemma createGame_wellFormed:
  assumes "createGame getAddress spawnFood hostEoa guestEoa = Inr g"
  shows "wellFormed (snakes g p)"
  using assms
  by (cases p)
    (auto simp: createGame_def wellFormed_def createInitialSnake_bodies inBounds_def
      GRID_WIDTH_def GRID_HEIGHT_def split: option.splits)

lemma reachable_wellFormed: "reachable g \<Longrightarrow> wellFormed (snakes g p)"
proof (induction arbitrary: p rule: reachable.induct)
  case (initial getAddress spawnFood hostEoa guestEoa g)
  then show ?case by (rule createGame_wellFormed)
next
  case (queued g addr d)
  then show ?case by (simp add: wellFormed_def changeDirection_body)
next
  case (ticked g pick)
  then show ?case by (simp add: updateGame_wellFormed)
qed

lemma updateGame_head:
  assumes "alive (snakes g p)" and "body (snakes g p) = h # t"
  shows "hd (body (snakes (updateGame pick g) p)) =
           calculateNewHead h (direction (snakes (updateGame pick g) p))"
  using assms
  by (simp add: updateGame_snake collide_fields moveSnake_def moveSnake_direction
      applyNextDirection_fields)

lemma updateGame_body:
  "body (snakes (updateGame pick g) p) = body (moveSnake (food g) (applyNextDirection (snakes g p)))"
  by (simp add: updateGame_snake collide_fields)

lemma updateGame_death:
  assumes "alive (snakes g p)" and "\<not> alive (snakes (updateGame pick g) p)"
  shows "checkSelfCollision (snakes (updateGame pick g) p) \<or>
         checkOtherSnakeCollision (snakes (updateGame pick g) p)
           (snakes (updateGame pick g) (otherPlayer p))"
proof -
  let ?m = "moveSnake (food g) (applyNextDirection (snakes g p))"
  let ?o = "moveSnake (food g) (applyNextDirection (snakes g (otherPlayer p)))"
  have alive: "alive ?m"
    using assms(1) by (simp add: moveSnake_alive applyNextDirection_fields)
  have "\<not> alive (collide ?m ?o)"
    using assms(2) by (simp add: updateGame_snake)
  with alive have "checkSelfCollision ?m \<or> checkOtherSnakeCollision ?m ?o"
    by (auto simp: collide_def split: if_splits)
  then show ?thesis
    unfolding checkSelfCollision_def checkOtherSnakeCollision_def updateGame_body .
qed

text \<open>
  Claim C5. In every reachable match state each actor has a head within the grid. A tick
  moves the head of an alive actor to the old head plus the unit vector of its heading,
  each coordinate reduced modulo the grid width and height, so the new head is within
  the grid again; an actor that is dead after the tick has collided with its own body
  or with the other actor (there is no wall collision); and moving right from the last
  column yields column 0.
\<close>

theorem head_wraps_no_wall:
  assumes "reachable g"
  shows "body (snakes g p) \<noteq> [] \<and> inBounds (hd (body (snakes g p))) \<and>
         (alive (snakes g p) \<longrightarrow>
            hd (body (snakes (updateGame pick g) p)) =
              ((fst (hd (body (snakes g p))) +
                  fst (unitVector (direction (snakes (updateGame pick g) p)))) mod GRID_WIDTH,
               (snd (hd (body (snakes g p))) +
                  snd (unitVector (direction (snakes (updateGame pick g) p)))) mod GRID_HEIGHT) \<and>
            inBounds (hd (body (snakes (updateGame pick g) p))) \<and>
            (alive (snakes (updateGame pick g) p) \<or>
             checkSelfCollision (snakes (updateGame pick g) p) \<or>
             checkOtherSnakeCollision (snakes (updateGame pick g) p)
               (snakes (updateGame pick g) (otherPlayer p)))) \<and>
         (0 \<le> y \<and> y < GRID_HEIGHT \<longrightarrow> calculateNewHead (GRID_WIDTH - 1, y) RIGHT = (0, y))"
proof -
  have wf: "wellFormed (snakes g p)"
    using assms by (rule reachable_wellFormed)
  then obtain h t where body: "body (snakes g p) = h # t" and h: "inBounds h"
    by (cases "body (snakes g p)") (auto simp: wellFormed_def)
  have now: "body (snakes g p) \<noteq> [] \<and> inBounds (hd (body (snakes g p)))"
    using body h by simp
  have step: "hd (body (snakes (updateGame pick g) p)) =
              ((fst (hd (body (snakes g p))) +
                  fst (unitVector (direction (snakes (updateGame pick g) p)))) mod GRID_WIDTH,
               (snd (hd (body (snakes g p))) +
                  snd (unitVector (direction (snakes (updateGame pick g) p)))) mod GRID_HEIGHT) \<and>
            inBounds (hd (body (snakes (updateGame pick g) p)))"
    if "alive (snakes g p)"
    using updateGame_head [OF that body, of pick] calculateNewHead_wrap [OF h]
      calculateNewHead_inBounds [OF h] body
    by simp
  have death: "alive (snakes (updateGame pick g) p) \<or>
             checkSelfCollision (snakes (updateGame pick g) p) \<or>
             checkOtherSnakeCollision (snakes (updateGame pick g) p)
               (snakes (updateGame pick g) (otherPlayer p))"
    if "alive (snakes g p)"
    using updateGame_death [OF that, of pick] by blast
  have edge: "calculateNewHead (GRID_WIDTH - 1, y) RIGHT = (0, y)"
    if "0 \<le> y \<and> y < GRID_HEIGHT"
  proof -
    have "inBounds (GRID_WIDTH - 1, y)"
      using that by (simp add: inBounds_def GRID_WIDTH_def)
    then show ?thesis
      using that by (simp add: calculateNewHead_wrap GRID_WIDTH_def)
  qed
  from now step death edge show ?thesis by blast
qed


lemma updateGame_food:
  "food (updateGame pick g) =
     ensureMinimumFood pick
       (body (snakes (updateGame pick g) player1) @ body (snakes (updateGame pick g) player2))
       (filter (\<lambda>c. c \<notin> set (eaten (food g) (applyNextDirection (snakes g player1)) @
                                eaten (food g) (applyNextDirection (snakes g player2))))
          (food g))"
  by (simp add: updateGame_def Let_def)

theorem head_wraps_no_wall_witness:
  "hd (body (snakes (updateGame (\<lambda>taken. (0, 0))
      (updateGame (\<lambda>taken. (0, 0)) (updateGame (\<lambda>taken. (0, 0)) (updateGame (\<lambda>taken. (0, 0))
         (changeDirection exampleStart ''0xA'' UP))))) player1)) = (3, 19) \<and>
   alive (snakes (updateGame (\<lambda>taken. (0, 0))
      (updateGame (\<lambda>taken. (0, 0)) (updateGame (\<lambda>taken. (0, 0)) (updateGame (\<lambda>taken. (0, 0))
         (changeDirection exampleStart ''0xA'' UP))))) player1)"
proof -
  let ?pick = "\<lambda>taken :: position list. (0, 0) :: position"
  let ?g1 = "updateGame ?pick (changeDirection exampleStart ''0xA'' UP)"
  let ?g2 = "updateGame ?pick ?g1"
  let ?g3 = "updateGame ?pick ?g2"
  have start: "createGame Some (\<lambda>k. [(10, 10), (15, 5), (8, 12)] ! k) ''0xA'' ''0xB'' = Inr exampleStart"
    by (simp add: createGame_def exampleStart_def createInitialSnake_def INITIAL_SNAKE_LENGTH_def
        numeral_3_eq_3 GRID_WIDTH_def GRID_HEIGHT_def fun_eq_iff split: player.splits)
  have "reachable exampleStart"
    using start by (rule reachable.initial)
  then have "reachable (changeDirection exampleStart ''0xA'' UP)"
    by (rule reachable.queued)
  then have "reachable ?g1"
    by (rule reachable.ticked)
  then have "reachable ?g2"
    by (rule reachable.ticked)
  then have r: "reachable ?g3"
    by (rule reachable.ticked)
  have f1: "food ?g1 = [(10, 10), (15, 5), (8, 12)]"
    by (simp add: updateGame_food changeDirection_def exampleStart_def applyNextDirection_def
        eaten_def calculateNewHead_def jsRem_def GRID_WIDTH_def GRID_HEIGHT_def
        ensureMinimumFood_def MIN_FOOD_COUNT_def)
  have s1: "snakes ?g1 player1 = \<lparr> body = [(3, 2), (3, 3), (2, 3)], direction = UP,
              nextDirection = Some UP, alive = True, score = 0 \<rparr>"
    by (simp add: updateGame_snake changeDirection_def exampleStart_def applyNextDirection_def
        moveSnake_def collide_def checkSelfCollision_def checkOtherSnakeCollision_def
        calculateNewHead_def jsRem_def GRID_WIDTH_def GRID_HEIGHT_def)
  have t1: "snakes ?g1 player2 = \<lparr> body = [(15, 16), (16, 16), (17, 16)], direction = LEFT,
              nextDirection = None, alive = True, score = 0 \<rparr>"
    by (simp add: updateGame_snake changeDirection_def exampleStart_def applyNextDirection_def
        moveSnake_def collide_def checkSelfCollision_def checkOtherSnakeCollision_def
        calculateNewHead_def jsRem_def GRID_WIDTH_def GRID_HEIGHT_def)
  have f2: "food ?g2 = [(10, 10), (15, 5), (8, 12)]"
    by (simp add: updateGame_food [of ?pick ?g1] f1 s1 t1 applyNextDirection_def
        eaten_def calculateNewHead_def jsRem_def GRID_WIDTH_def GRID_HEIGHT_def
        ensureMinimumFood_def MIN_FOOD_COUNT_def)
  have s2: "snakes ?g2 player1 = \<lparr> body = [(3, 1), (3, 2), (3, 3)], direction = UP,
              nextDirection = Some UP, alive = True, score = 0 \<rparr>"
    by (simp add: updateGame_snake [of ?pick ?g1] f1 s1 t1 applyNextDirection_def
        moveSnake_def collide_def checkSelfCollision_def checkOtherSnakeCollision_def
        calculateNewHead_def jsRem_def GRID_WIDTH_def GRID_HEIGHT_def)
  have t2: "snakes ?g2 player2 = \<lparr> body = [(14, 16), (15, 16), (16, 16)], direction = LEFT,
              nextDirection = None, alive = True, score = 0 \<rparr>"
    by (simp add: updateGame_snake [of ?pick ?g1] f1 s1 t1 applyNextDirection_def
        moveSnake_def collide_def checkSelfCollision_def checkOtherSnakeCollision_def
        calculateNewHead_def jsRem_def GRID_WIDTH_def GRID_HEIGHT_def)
  have s3: "snakes ?g3 player1 = \<lparr> body = [(3, 0), (3, 1), (3, 2)], direction = UP,
              nextDirection = Some UP, alive = True, score = 0 \<rparr>"
    by (simp add: updateGame_snake [of ?pick ?g2] f2 s2 t2 applyNextDirection_def
        moveSnake_def collide_def checkSelfCollision_def checkOtherSnakeCollision_def
        calculateNewHead_def jsRem_def GRID_WIDTH_def GRID_HEIGHT_def)
  have t3: "snakes ?g3 player2 = \<lparr> body = [(13, 16), (14, 16), (15, 16)], direction = LEFT,
              nextDirection = None, alive = True, score = 0 \<rparr>"
    by (simp add: updateGame_snake [of ?pick ?g2] f2 s2 t2 applyNextDirection_def
        moveSnake_def collide_def checkSelfCollision_def checkOtherSnakeCollision_def
        calculateNewHead_def jsRem_def GRID_WIDTH_def GRID_HEIGHT_def)
  have f3: "food ?g3 = [(10, 10), (15, 5), (8, 12)]"
    by (simp add: updateGame_food [of ?pick ?g2] f2 s2 t2 applyNextDirection_def
        eaten_def calculateNewHead_def jsRem_def GRID_WIDTH_def GRID_HEIGHT_def
        ensureMinimumFood_def MIN_FOOD_COUNT_def)
  have d4: "direction (snakes (updateGame ?pick ?g3) player1) = UP"
    by (simp add: updateGame_direction s3 applyNextDirection_def)
  have a4: "alive (snakes (updateGame ?pick ?g3) player1)"
    by (simp add: updateGame_snake [of ?pick ?g3] f3 s3 t3 applyNextDirection_def
        moveSnake_def collide_def checkSelfCollision_def checkOtherSnakeCollision_def
        calculateNewHead_def jsRem_def GRID_WIDTH_def GRID_HEIGHT_def)
  show ?thesis
    using head_wraps_no_wall [OF r, of player1 ?pick 0] s3 d4 a4
    by (simp add: GRID_WIDTH_def GRID_HEIGHT_def)
qed

end
